theory Spec2Isabelle
  imports Complex_Main "HOL-Library.AList"
begin

section \<open>Values and exceptions\<close>

text \<open>
  The payload of a memory variable is typed \<^verbatim>\<open>bool | int | float\<close> in the source.
  A float is a finite number, an infinity or a NaN; the only operation the engine
  applies to a payload is Python's truth test (\<^verbatim>\<open>if self.curr_state:\<close>).
\<close>

datatype pyfloat = Finite rat | PosInf | NegInf | NaN

datatype val = VBool bool | VInt int | VFloat pyfloat

fun truthy :: "val \<Rightarrow> bool" where
  "truthy (VBool b) = b"
| "truthy (VInt i) = (i \<noteq> 0)"
| "truthy (VFloat f) = (f \<noteq> Finite 0)"

text \<open>
  Modelled from the spec: the module \<^verbatim>\<open>exceptions.py\<close> is not among the sources. Of
  its classes the engine uses \<^verbatim>\<open>InternalCommunicationError\<close>, of which it reads the
  attribute \<^verbatim>\<open>description\<close>, and \<^verbatim>\<open>EmergencyException\<close>, of which it reads nothing.
  The other exceptions that travel through the engine are Python's own:
  \<^verbatim>\<open>ValueError\<close> with its message, \<^verbatim>\<open>KeyError\<close> with the missing key, \<^verbatim>\<open>SystemExit\<close>
  with the argument of \<^verbatim>\<open>sys.exit\<close>. Anything else a collaborator may raise is
  \<open>OtherException\<close>.
\<close>

datatype exn =
    ValueError string
  | KeyError string
  | InternalCommunicationError string
  | EmergencyException
  | SystemExit string
  | OtherException string

section \<open>MemoryVariable\<close>

record MemoryVariable =
  curr_state :: val
  prev_state :: val
  single_bit :: bool
  decimal_precision :: int

text \<open>\<^verbatim>\<open>MemoryVariable()\<close> with every field at its default.\<close>

definition MemoryVariable_default :: MemoryVariable where
  "MemoryVariable_default =
     \<lparr>curr_state = VInt 0, prev_state = VInt 0, single_bit = True, decimal_precision = 3\<rparr>"

text \<open>\<^verbatim>\<open>update\<close>: two assignments, in the order of the source.\<close>

definition update :: "MemoryVariable \<Rightarrow> val \<Rightarrow> MemoryVariable" where
  "update self v =
     (let self1 = self\<lparr>prev_state := curr_state self\<rparr>
      in self1\<lparr>curr_state := v\<rparr>)"


text \<open>
  \<^verbatim>\<open>activate\<close> and \<^verbatim>\<open>deactivate\<close> mutate the variable or raise: the result is the
  exception raised (if any) and the variable as the call leaves it.
\<close>

definition not_single_bit :: exn where
  "not_single_bit = ValueError ''Memory variable is not single bit.''"

definition activate :: "MemoryVariable \<Rightarrow> exn option \<times> MemoryVariable" where
  "activate self =
     (if single_bit self then (None, update self (VInt 1))
      else (Some not_single_bit, self))"

definition deactivate :: "MemoryVariable \<Rightarrow> exn option \<times> MemoryVariable" where
  "deactivate self =
     (if single_bit self then (None, update self (VInt 0))
      else (Some not_single_bit, self))"

text \<open>
  The two edge properties read the variable and assign nothing, so they are functions
  of the variable alone: the value returned, or the exception raised.
\<close>

definition raising_edge :: "MemoryVariable \<Rightarrow> exn + bool" where
  "raising_edge self =
     (if single_bit self then
        (if truthy (curr_state self) \<and> \<not> truthy (prev_state self) then Inr True
         else Inr False)
      else Inl not_single_bit)"

definition falling_edge :: "MemoryVariable \<Rightarrow> exn + bool" where
  "falling_edge self =
     (if single_bit self then
        (if truthy (prev_state self) \<and> \<not> truthy (curr_state self) then Inr True
         else Inr False)
      else Inl not_single_bit)"

section \<open>Bindings and registries\<close>

datatype pin = PinName string | PinNumber int

text \<open>
  Modelled from the spec: the module \<^verbatim>\<open>gpio.py\<close> (the classes \<^verbatim>\<open>GPIO\<close>,
  \<^verbatim>\<open>DigitalInput\<close>, \<^verbatim>\<open>DigitalOutput\<close>, \<^verbatim>\<open>PWMOutput\<close>) is not among the sources.
  The spec gives a binding a name and the two operations \<^verbatim>\<open>read() -> value\<close> and
  \<^verbatim>\<open>write(value)\<close>. Here a binding is the record of the arguments its constructor
  receives in \<^verbatim>\<open>plc.py\<close> (the pin factory left out), its \<^verbatim>\<open>label\<close> attribute is the
  label it was constructed with, and reading and writing are parameters of the engine
  (\<open>gpio_read\<close> and \<open>gpio_write\<close> below).
\<close>

datatype GPIO =
    DigitalInput pin string bool
  | DigitalOutput pin string val
  | PWMOutput pin string val val val val val val

fun label :: "GPIO \<Rightarrow> string" where
  "label (DigitalInput p l a) = l"
| "label (DigitalOutput p l i) = l"
| "label (PWMOutput p l i fw mn mx lo hi) = l"

text \<open>
  The attributes of \<^verbatim>\<open>AbstractPLC\<close> that the scan cycle reads or writes. A Python
  dictionary keeps its keys in insertion order and \<^verbatim>\<open>d[k] = v\<close> replaces the value of
  a key already present where it stands: an association list under \<open>AList.update\<close>.
  \<^verbatim>\<open>_inputs\<close>, \<^verbatim>\<open>_outputs\<close> and \<^verbatim>\<open>_exit\<close> are \<open>priv_inputs\<close>, \<open>priv_outputs\<close> and
  \<open>priv_exit\<close>.
\<close>

record PLC =
  priv_inputs :: "(string \<times> GPIO) list"
  priv_outputs :: "(string \<times> GPIO) list"
  input_registry :: "(string \<times> MemoryVariable) list"
  output_registry :: "(string \<times> MemoryVariable) list"
  step_registry :: "(string \<times> MemoryVariable) list"
  priv_exit :: bool

text \<open>The state \<^verbatim>\<open>__init__\<close> leaves.\<close>

definition init_PLC :: PLC where
  "init_PLC =
     \<lparr>priv_inputs = [], priv_outputs = [], input_registry = [], output_registry = [],
      step_registry = [], priv_exit = False\<rparr>"

text \<open>
  The registration methods return the memory variables they created and leave the
  engine with the new entries. \<^verbatim>\<open>NC_contact\<close> is typed \<^verbatim>\<open>bool | None\<close>.
\<close>

definition add_digital_input ::
  "pin \<Rightarrow> string \<Rightarrow> bool option \<Rightarrow> PLC \<Rightarrow> MemoryVariable \<times> PLC" where
  "add_digital_input pn lbl NC_contact self =
     (let (active_state, init_value) =
            (if NC_contact = Some True then (False, VInt 1) else (True, VInt 0));
          self1 = self\<lparr>priv_inputs :=
                    AList.update lbl (DigitalInput pn lbl active_state) (priv_inputs self)\<rparr>;
          mv = \<lparr>curr_state = init_value, prev_state = init_value,
                single_bit = True, decimal_precision = 3\<rparr>;
          self2 = self1\<lparr>input_registry := AList.update lbl mv (input_registry self1)\<rparr>
      in (mv, self2))"

definition add_digital_output ::
  "pin \<Rightarrow> string \<Rightarrow> val \<Rightarrow> PLC \<Rightarrow> (MemoryVariable \<times> MemoryVariable) \<times> PLC" where
  "add_digital_output pn lbl init_value self =
     (let self1 = self\<lparr>priv_outputs :=
                    AList.update lbl (DigitalOutput pn lbl init_value) (priv_outputs self)\<rparr>;
          out = \<lparr>curr_state = init_value, prev_state = init_value,
                 single_bit = True, decimal_precision = 3\<rparr>;
          self2 = self1\<lparr>output_registry := AList.update lbl out (output_registry self1)\<rparr>;
          status = MemoryVariable_default;
          self3 = self2\<lparr>input_registry :=
                    AList.update (lbl @ ''_status'') status (input_registry self2)\<rparr>
      in ((out, status), self3))"

definition add_pwm_output ::
  "pin \<Rightarrow> string \<Rightarrow> val \<Rightarrow> val \<Rightarrow> val \<Rightarrow> val \<Rightarrow> val \<Rightarrow> val \<Rightarrow> int \<Rightarrow> PLC
   \<Rightarrow> (MemoryVariable \<times> MemoryVariable) \<times> PLC" where
  "add_pwm_output pn lbl init_value frame_width min_pulse_width max_pulse_width
       min_value max_value dec_precision self =
     (let self1 = self\<lparr>priv_outputs :=
                    AList.update lbl
                      (PWMOutput pn lbl init_value frame_width min_pulse_width
                         max_pulse_width min_value max_value)
                      (priv_outputs self)\<rparr>;
          out = \<lparr>curr_state = init_value, prev_state = init_value,
                 single_bit = False, decimal_precision = 3\<rparr>;
          self2 = self1\<lparr>output_registry := AList.update lbl out (output_registry self1)\<rparr>;
          status = \<lparr>curr_state = VInt 0, prev_state = VInt 0,
                    single_bit = False, decimal_precision = dec_precision\<rparr>;
          self3 = self2\<lparr>input_registry :=
                    AList.update (lbl @ ''_status'') status (input_registry self2)\<rparr>
      in ((out, status), self3))"

definition add_step :: "string \<Rightarrow> val \<Rightarrow> PLC \<Rightarrow> MemoryVariable \<times> PLC" where
  "add_step lbl init_value self =
     (let step = \<lparr>curr_state = init_value, prev_state = init_value,
                  single_bit = True, decimal_precision = 3\<rparr>
      in (step, self\<lparr>step_registry := AList.update lbl step (step_registry self)\<rparr>))"

text \<open>
  \<^verbatim>\<open>update_registries\<close>: the first loop walks the step registry, the second the
  output registry; each variable is updated with its own current state.
\<close>

definition update_registries :: "PLC \<Rightarrow> PLC" where
  "update_registries self =
     (let self1 = self\<lparr>step_registry :=
                    map (\<lambda>(k, step). (k, update step (curr_state step))) (step_registry self)\<rparr>
      in self1\<lparr>output_registry :=
                 map (\<lambda>(k, output). (k, update output (curr_state output)))
                   (output_registry self1)\<rparr>)"

definition exit_handler :: "PLC \<Rightarrow> PLC" where
  "exit_handler self = self\<lparr>priv_exit := True\<rparr>"

section \<open>The scan engine\<close>

text \<open>
  The modules \<^verbatim>\<open>gpio.py\<close> and \<^verbatim>\<open>email_notification.py\<close> are not among the
  sources, and the three routines of an application are abstract methods of the engine.
  What the engine does not own is a parameter: the hardware behind the bindings
  (\<open>gpio_read\<close>, \<open>gpio_write\<close>), the e-mail notification service
  (\<^verbatim>\<open>self.eml_notification\<close>: \<open>None\<close> when not configured, else its \<^verbatim>\<open>send\<close>),
  the three routines, and the \<^verbatim>\<open>SIGTSTP\<close> signal. They act on a world \<open>'w\<close> of their
  own. Each call is taken to come back, by returning or by raising: it yields the
  exception it raised (if any) beside the world it leaves. The three routines are
  methods of the engine: they may also change any of its attributes. The logger's
  \<^verbatim>\<open>error\<close> is taken to return (Python's logging handles the errors of its handlers
  itself).
\<close>

record 'w env =
  gpio_read :: "GPIO \<Rightarrow> 'w \<Rightarrow> (exn + val) \<times> 'w"
  gpio_write :: "GPIO \<Rightarrow> val \<Rightarrow> 'w \<Rightarrow> exn option \<times> 'w"
  eml_notification :: "(string \<Rightarrow> 'w \<Rightarrow> exn option \<times> 'w) option"
  control_routine :: "PLC \<Rightarrow> 'w \<Rightarrow> exn option \<times> PLC \<times> 'w"
  exit_routine :: "PLC \<Rightarrow> 'w \<Rightarrow> exn option \<times> PLC \<times> 'w"
  emergency_routine :: "PLC \<Rightarrow> 'w \<Rightarrow> exn option \<times> PLC \<times> 'w"
  sigtstp :: "'w \<Rightarrow> bool"

text \<open>
  The engine's own calls are recorded in a trace the application cannot touch: the
  methods \<^verbatim>\<open>run\<close> invokes, each read of a binding with what it returned or raised,
  each write of a binding with the value passed, the logger's \<^verbatim>\<open>error\<close> and the
  notifier's \<^verbatim>\<open>send\<close>.
\<close>

datatype event =
    Call_update_registries
  | Call_read_inputs
  | Call_control_routine
  | Call_emergency_routine
  | Call_exit_routine
  | Call_write_outputs
  | Gpio_read GPIO "exn + val"
  | Gpio_write GPIO val
  | Logger_error string
  | Eml_send string

record 'w st =
  plc :: PLC
  world :: 'w
  trace :: "event list"

definition emit :: "event \<Rightarrow> 'w st \<Rightarrow> 'w st" where
  "emit ev s = s\<lparr>trace := trace s @ [ev]\<rparr>"

text \<open>
  \<^verbatim>\<open>int_com_error_handler\<close> never returns: its result is the exception that leaves
  it. \<^verbatim>\<open>sys.exit(msg)\<close> raises \<^verbatim>\<open>SystemExit(msg)\<close>; an exception raised by \<^verbatim>\<open>send\<close>
  leaves the handler before \<^verbatim>\<open>sys.exit\<close> is reached.
\<close>

definition int_com_error_handler :: "'w env \<Rightarrow> string \<Rightarrow> 'w st \<Rightarrow> exn \<times> 'w st" where
  "int_com_error_handler E description s =
     (let msg = ''program interrupted: '' @ description;
          s1 = emit (Logger_error msg) s
      in case eml_notification E of
           None \<Rightarrow> (SystemExit msg, s1)
         | Some send \<Rightarrow>
             (let s2 = emit (Eml_send msg) s1;
                  (r, w) = send msg (world s2);
                  s3 = s2\<lparr>world := w\<rparr>
              in case r of
                   Some e \<Rightarrow> (e, s3)
                 | None \<Rightarrow> (SystemExit msg, s3)))"

text \<open>
  The clause \<^verbatim>\<open>except InternalCommunicationError as error\<close> of \<^verbatim>\<open>read_inputs\<close> and
  \<^verbatim>\<open>write_outputs\<close>: any other exception passes through.
\<close>

fun except_InternalCommunicationError ::
  "'w env \<Rightarrow> exn option \<times> 'w st \<Rightarrow> exn option \<times> 'w st" where
  "except_InternalCommunicationError E (Some (InternalCommunicationError d), s) =
     (let (e, s1) = int_com_error_handler E d s in (Some e, s1))"
| "except_InternalCommunicationError E (r, s) = (r, s)"

text \<open>
  One loop of \<^verbatim>\<open>read_inputs\<close>: \<open>key\<close> names the registry entry of a binding
  (\<^verbatim>\<open>input_.label\<close> in the first loop, \<^verbatim>\<open>f"{output.label}_status"\<close> in the second).
  The subscription \<^verbatim>\<open>self.input_registry[...]\<close> is evaluated before \<^verbatim>\<open>read()\<close>.
\<close>

fun read_bindings ::
  "'w env \<Rightarrow> (GPIO \<Rightarrow> string) \<Rightarrow> GPIO list \<Rightarrow> 'w st \<Rightarrow> exn option \<times> 'w st" where
  "read_bindings E key [] s = (None, s)"
| "read_bindings E key (g # gs) s =
     (case map_of (input_registry (plc s)) (key g) of
        None \<Rightarrow> (Some (KeyError (key g)), s)
      | Some mv \<Rightarrow>
          (case gpio_read E g (world s) of
             (Inl e, w) \<Rightarrow> (Some e, emit (Gpio_read g (Inl e)) (s\<lparr>world := w\<rparr>))
           | (Inr v, w) \<Rightarrow>
               read_bindings E key gs
                 (emit (Gpio_read g (Inr v))
                    (s\<lparr>plc := (plc s)\<lparr>input_registry :=
                                  AList.update (key g) (update mv v) (input_registry (plc s))\<rparr>,
                       world := w\<rparr>))))"

definition status_label :: "GPIO \<Rightarrow> string" where
  "status_label output = label output @ ''_status''"

text \<open>The two loops in the \<^verbatim>\<open>try\<close> block of \<^verbatim>\<open>read_inputs\<close>.\<close>

definition read_loops :: "'w env \<Rightarrow> 'w st \<Rightarrow> exn option \<times> 'w st" where
  "read_loops E s =
     (case read_bindings E label (map snd (priv_inputs (plc s))) s of
        (Some e, s1) \<Rightarrow> (Some e, s1)
      | (None, s1) \<Rightarrow> read_bindings E status_label (map snd (priv_outputs (plc s1))) s1)"

definition read_inputs :: "'w env \<Rightarrow> 'w st \<Rightarrow> exn option \<times> 'w st" where
  "read_inputs E s =
     except_InternalCommunicationError E (read_loops E (emit Call_read_inputs s))"

text \<open>
  The loop of \<^verbatim>\<open>write_outputs\<close>: the argument
  \<^verbatim>\<open>self.output_registry[output.label].curr_state\<close> is evaluated before the call.
\<close>

fun write_bindings :: "'w env \<Rightarrow> GPIO list \<Rightarrow> 'w st \<Rightarrow> exn option \<times> 'w st" where
  "write_bindings E [] s = (None, s)"
| "write_bindings E (g # gs) s =
     (case map_of (output_registry (plc s)) (label g) of
        None \<Rightarrow> (Some (KeyError (label g)), s)
      | Some mv \<Rightarrow>
          (case gpio_write E g (curr_state mv) (world s) of
             (Some e, w) \<Rightarrow> (Some e, emit (Gpio_write g (curr_state mv)) (s\<lparr>world := w\<rparr>))
           | (None, w) \<Rightarrow>
               write_bindings E gs (emit (Gpio_write g (curr_state mv)) (s\<lparr>world := w\<rparr>))))"

definition write_outputs :: "'w env \<Rightarrow> 'w st \<Rightarrow> exn option \<times> 'w st" where
  "write_outputs E s =
     (let s0 = emit Call_write_outputs s
      in except_InternalCommunicationError E
           (write_bindings E (map snd (priv_outputs (plc s0))) s0))"

text \<open>A call of one of the three routines of the application.\<close>

definition call_routine ::
  "event \<Rightarrow> (PLC \<Rightarrow> 'w \<Rightarrow> exn option \<times> PLC \<times> 'w) \<Rightarrow> 'w st \<Rightarrow> exn option \<times> 'w st" where
  "call_routine ev routine s =
     (let s0 = emit ev s;
          (r, p, w) = routine (plc s0) (world s0)
      in (r, s0\<lparr>plc := p, world := w\<rparr>))"

text \<open>
  The \<^verbatim>\<open>try\<close> block of \<^verbatim>\<open>run\<close>: three calls, the first exception ends the block.
\<close>

definition advance_phase :: "'w st \<Rightarrow> 'w st" where
  "advance_phase s = (emit Call_update_registries s)\<lparr>plc := update_registries (plc s)\<rparr>"

definition try_block :: "'w env \<Rightarrow> 'w st \<Rightarrow> exn option \<times> 'w st" where
  "try_block E s =
     (case read_inputs E (advance_phase s) of
        (Some e, s2) \<Rightarrow> (Some e, s2)
      | (None, s2) \<Rightarrow> call_routine Call_control_routine (control_routine E) s2)"

text \<open>
  How a piece of \<^verbatim>\<open>run\<close> ends: the loop goes on, the method returns, or an exception
  leaves it.
\<close>

datatype 'a outcome = Continue 'a | Return 'a | Raised exn 'a

fun final :: "'a outcome \<Rightarrow> 'a" where
  "final (Continue s) = s"
| "final (Return s) = s"
| "final (Raised e s) = s"

text \<open>
  The \<^verbatim>\<open>finally\<close> clause runs \<^verbatim>\<open>write_outputs\<close> on every way out of the \<^verbatim>\<open>try\<close>
  statement; an exception raised in it replaces the pending return or exception.
\<close>

definition finally_write_outputs :: "'w env \<Rightarrow> 'w st outcome \<Rightarrow> 'w st outcome" where
  "finally_write_outputs E pending =
     (case write_outputs E (final pending) of
        (Some e, s) \<Rightarrow> Raised e s
      | (None, s) \<Rightarrow>
          (case pending of
             Continue _ \<Rightarrow> Continue s
           | Return _ \<Rightarrow> Return s
           | Raised e _ \<Rightarrow> Raised e s))"

text \<open>
  The clause \<^verbatim>\<open>except EmergencyException\<close> of \<^verbatim>\<open>run\<close>, applied to the way the
  \<^verbatim>\<open>try\<close> block ended: it catches the exception from anywhere in the block, calls
  \<^verbatim>\<open>emergency_routine\<close> and returns.
\<close>

definition except_EmergencyException ::
  "'w env \<Rightarrow> exn option \<times> 'w st \<Rightarrow> 'w st outcome" where
  "except_EmergencyException E blk =
     (case blk of
        (None, s1) \<Rightarrow> Continue s1
      | (Some e, s1) \<Rightarrow>
          (if e = EmergencyException then
             (case call_routine Call_emergency_routine (emergency_routine E) s1 of
                (Some e', s2) \<Rightarrow> Raised e' s2
              | (None, s2) \<Rightarrow> Return s2)
           else Raised e s1))"

text \<open>One pass through the body of the \<^verbatim>\<open>while\<close> loop.\<close>

definition scan_cycle :: "'w env \<Rightarrow> 'w st \<Rightarrow> 'w st outcome" where
  "scan_cycle E s =
     finally_write_outputs E (except_EmergencyException E (try_block E s))"

text \<open>The \<^verbatim>\<open>else\<close> clause of the \<^verbatim>\<open>while\<close> loop.\<close>

definition else_clause :: "'w env \<Rightarrow> 'w st \<Rightarrow> 'w st outcome" where
  "else_clause E s =
     (case call_routine Call_exit_routine (exit_routine E) s of
        (Some e, s1) \<Rightarrow> Raised e s1
      | (None, s1) \<Rightarrow>
          (case write_outputs E s1 of
             (Some e, s2) \<Rightarrow> Raised e s2
           | (None, s2) \<Rightarrow> Return s2))"

text \<open>
  \<^verbatim>\<open>__init__\<close> installs \<^verbatim>\<open>exit_handler\<close> as the handler of \<^verbatim>\<open>SIGTSTP\<close>. The handler
  only sets \<^verbatim>\<open>_exit\<close>, and the engine only reads \<^verbatim>\<open>_exit\<close> in the loop condition, so
  a signal that arrived since the last test is delivered right before the next one.
\<close>

definition deliver_signal :: "'w env \<Rightarrow> 'w st \<Rightarrow> 'w st" where
  "deliver_signal E s = (if sigtstp E (world s) then s\<lparr>plc := exit_handler (plc s)\<rparr> else s)"

text \<open>
  \<^verbatim>\<open>run\<close>. The loop need not end, so it runs on fuel: one unit for each test of the
  loop condition, \<open>None\<close> when the fuel is used up before \<^verbatim>\<open>run\<close> is left.
\<close>

fun run :: "nat \<Rightarrow> 'w env \<Rightarrow> 'w st \<Rightarrow> 'w st outcome option" where
  "run 0 E s = None"
| "run (Suc n) E s =
     (let s0 = deliver_signal E s
      in if \<not> priv_exit (plc s0) then
           (case scan_cycle E s0 of
              Continue s1 \<Rightarrow> run n E s1
            | Return s1 \<Rightarrow> Some (Return s1)
            | Raised e s1 \<Rightarrow> Some (Raised e s1))
         else Some (else_clause E s0))"

text \<open>
  The state after \<open>k\<close> passes through the loop body that all went on to the next test
  of the loop condition; \<open>None\<close> when \<^verbatim>\<open>run\<close> is left earlier.
\<close>

fun cycles :: "nat \<Rightarrow> 'w env \<Rightarrow> 'w st \<Rightarrow> 'w st option" where
  "cycles 0 E s = Some s"
| "cycles (Suc k) E s =
     (let s0 = deliver_signal E s
      in if \<not> priv_exit (plc s0) then
           (case scan_cycle E s0 of
              Continue s1 \<Rightarrow> cycles k E s1
            | Return s1 \<Rightarrow> None
            | Raised e s1 \<Rightarrow> None)
         else None)"

text \<open>The methods of the engine that \<^verbatim>\<open>run\<close> invoked, in order.\<close>

fun is_call :: "event \<Rightarrow> bool" where
  "is_call (Gpio_read g r) = False"
| "is_call (Gpio_write g v) = False"
| "is_call (Logger_error m) = False"
| "is_call (Eml_send m) = False"
| "is_call ev = True"

definition calls :: "'w st \<Rightarrow> event list" where
  "calls s = filter is_call (trace s)"

text \<open>The calls of one pass through the loop body in which nothing is raised.\<close>

abbreviation full_cycle :: "event list" where
  "full_cycle \<equiv> [Call_update_registries, Call_read_inputs, Call_control_routine, Call_write_outputs]"

text \<open>
  The write \<^verbatim>\<open>write_outputs\<close> passes to a binding: the current state of the entry of
  the output registry under the binding's label.
\<close>

definition write_event :: "PLC \<Rightarrow> GPIO \<Rightarrow> event" where
  "write_event p g = Gpio_write g (curr_state (the (map_of (output_registry p) (label g))))"

text \<open>
  The bound outputs the output phase writes to, in the words of C2 as amended: in the
  order of registration, up to and including the first whose write raises. (An output
  whose entry in the output registry is missing is not written to, and none after it:
  the subscription raises \<^verbatim>\<open>KeyError\<close> before the call.)
\<close>

fun written_outputs :: "'w env \<Rightarrow> PLC \<Rightarrow> GPIO list \<Rightarrow> 'w \<Rightarrow> GPIO list" where
  "written_outputs E p [] w = []"
| "written_outputs E p (g # gs) w =
     (case map_of (output_registry p) (label g) of
        None \<Rightarrow> []
      | Some mv \<Rightarrow>
          (case gpio_write E g (curr_state mv) w of
             (Some e, w') \<Rightarrow> [g]
           | (None, w') \<Rightarrow> g # written_outputs E p gs w'))"

text \<open>What \<^verbatim>\<open>int_com_error_handler\<close> leaves in the trace.\<close>

fun is_notice :: "event \<Rightarrow> bool" where
  "is_notice (Logger_error m) = True"
| "is_notice (Eml_send m) = True"
| "is_notice ev = False"

section \<open>Invariant of registration\<close>

text \<open>
  Every binding the registration methods store is stored under the label it carries,
  and a dictionary has each key once.
\<close>

definition labelled :: "(string \<times> GPIO) list \<Rightarrow> bool" where
  "labelled bs = (distinct (map fst bs) \<and> list_all (\<lambda>(k, g). label g = k) bs)"

definition wf :: "PLC \<Rightarrow> bool" where
  "wf p = (labelled (priv_inputs p) \<and> labelled (priv_outputs p))"

section \<open>Concrete configurations\<close>

text \<open>
  A step marker that has just been set and a PWM duty cycle that has just been raised,
  beside an input that has just risen.
\<close>

definition plc_after_control :: PLC where
  "plc_after_control = init_PLC
     \<lparr>input_registry :=
        [(''start'', \<lparr>curr_state = VBool True, prev_state = VInt 0,
                      single_bit = True, decimal_precision = 3\<rparr>)],
      output_registry :=
        [(''fan'', \<lparr>curr_state = VFloat (Finite 1), prev_state = VFloat (Finite 0),
                    single_bit = False, decimal_precision = 3\<rparr>)],
      step_registry :=
        [(''stage'', \<lparr>curr_state = VInt 1, prev_state = VInt 0,
                      single_bit = True, decimal_precision = 3\<rparr>)]\<rparr>"

text \<open>
  Hardware that works: every binding reads high, every write succeeds. The world counts
  the calls of the control routine; no notifier, no signal, routines that do nothing.
\<close>

fun read_high :: "GPIO \<Rightarrow> val" where
  "read_high (PWMOutput p l i fw mn mx lo hi) = VFloat (Finite 1)"
| "read_high g = VBool True"

definition env_plain :: "nat env" where
  "env_plain =
     \<lparr>gpio_read = (\<lambda>g w. (Inr (read_high g), w)),
      gpio_write = (\<lambda>g v w. (None, w)),
      eml_notification = None,
      control_routine = (\<lambda>p w. (None, p, Suc w)),
      exit_routine = (\<lambda>p w. (None, p, w)),
      emergency_routine = (\<lambda>p w. (None, p, w)),
      sigtstp = (\<lambda>w. False)\<rparr>"


text \<open>The engine as \<^verbatim>\<open>run\<close> finds it: nothing traced yet.\<close>

definition boot :: "PLC \<Rightarrow> nat st" where
  "boot p = \<lparr>plc = p, world = 0, trace = []\<rparr>"

text \<open>A digital output and a PWM output, each registered with a truthy initial value.\<close>

definition plc_valve :: PLC where
  "plc_valve = snd (add_digital_output (PinNumber 27) ''valve'' (VInt 1) init_PLC)"

definition plc_fan :: PLC where
  "plc_fan = snd (add_pwm_output (PinNumber 18) ''fan'' (VFloat (Finite 1)) (VFloat (Finite 20))
       (VFloat (Finite 1)) (VFloat (Finite 2)) (VFloat (Finite 0)) (VFloat (Finite 1)) 0 init_PLC)"

text \<open>
  A control routine that raises \<^verbatim>\<open>EmergencyException\<close> on its third call, and an
  emergency routine that switches every output off.
\<close>

definition env_emergency :: "nat env" where
  "env_emergency = env_plain
     \<lparr>control_routine :=
        (\<lambda>p w. (if w = 2 then Some EmergencyException else None, p, Suc w)),
      emergency_routine :=
        (\<lambda>p w. (None,
                 p\<lparr>output_registry :=
                     map (\<lambda>(k, v). (k, update v (VInt 0))) (output_registry p)\<rparr>,
                 w))\<rparr>"

text \<open>
  The \<^verbatim>\<open>SIGTSTP\<close> handler runs while the control routine executes, and the hardware
  then refuses the write.
\<close>

definition env_stop_write_fails :: "nat env" where
  "env_stop_write_fails = env_plain
     \<lparr>gpio_write := (\<lambda>g v w. (Some (InternalCommunicationError ''no reply from pin 27''), w)),
      control_routine := (\<lambda>p w. (None, exit_handler p, Suc w))\<rparr>"

text \<open>
  A \<^verbatim>\<open>SIGTSTP\<close> that arrives during the second cycle, and an exit routine that
  switches every output off.
\<close>

definition env_stop :: "nat env" where
  "env_stop = env_plain
     \<lparr>exit_routine :=
        (\<lambda>p w. (None,
                 p\<lparr>output_registry :=
                     map (\<lambda>(k, v). (k, update v (VInt 0))) (output_registry p)\<rparr>,
                 w)),
      sigtstp := (\<lambda>w. 2 \<le> w)\<rparr>"

text \<open>A notifier that delivers, and one whose \<^verbatim>\<open>send\<close> raises.\<close>

definition env_notify :: "nat env" where
  "env_notify = env_plain\<lparr>eml_notification := Some (\<lambda>msg w. (None, w))\<rparr>"

definition env_notify_fails :: "nat env" where
  "env_notify_fails = env_plain
     \<lparr>eml_notification := Some (\<lambda>msg w. (Some (OtherException ''SMTP server unreachable''), w))\<rparr>"

text \<open>One input and two outputs; the input does not answer.\<close>

definition plc_two_outputs :: PLC where
  "plc_two_outputs =
     snd (add_digital_output (PinNumber 22) ''pump'' (VInt 0)
       (snd (add_digital_output (PinNumber 27) ''valve'' (VInt 1)
         (snd (add_digital_input (PinNumber 17) ''start'' (Some False) init_PLC)))))"

fun read_input_fails :: "GPIO \<Rightarrow> exn + val" where
  "read_input_fails (DigitalInput p l a) = Inl (InternalCommunicationError ''no reply from pin 17'')"
| "read_input_fails g = Inr (read_high g)"

definition env_read_fails :: "nat env" where
  "env_read_fails = env_plain\<lparr>gpio_read := (\<lambda>g w. (read_input_fails g, w))\<rparr>"

definition env_read_write_fail :: "nat env" where
  "env_read_write_fail = env_read_fails
     \<lparr>gpio_write := (\<lambda>g v w. (Some (InternalCommunicationError ''no reply from pin 27''), w))\<rparr>"




section \<open>Properties of MemoryVariable\<close>

text \<open>
  C5. For every memory variable and every value \<open>v\<close>, \<^verbatim>\<open>update(v)\<close> stores the former
  current state as the previous state and \<open>v\<close> as the current state; the other two
  attributes keep their values. \<open>update\<close> is a total function into the variables: there
  is no exceptional result.
\<close>

theorem update_shifts_state:
  "prev_state (update mv v) = curr_state mv
   \<and> curr_state (update mv v) = v
   \<and> single_bit (update mv v) = single_bit mv
   \<and> decimal_precision (update mv v) = decimal_precision mv"
  by (simp add: update_def)

text \<open>
  C6. On a single-bit variable, \<^verbatim>\<open>raising_edge\<close> returns whether the previous state is
  falsy and the current state truthy, and \<^verbatim>\<open>falling_edge\<close> whether the previous state
  is truthy and the current state falsy. Read right after an \<^verbatim>\<open>update(v)\<close>, they tell
  whether that update moved the value from falsy to truthy (from truthy to falsy), and
  both are false when the update left the value, or only its truth value, unchanged.
  Both are functions of the variable: they return a result and change nothing.
\<close>

theorem edges_compare_prev_and_curr:
  assumes "single_bit mv"
  shows "raising_edge mv = Inr (\<not> truthy (prev_state mv) \<and> truthy (curr_state mv))
   \<and> falling_edge mv = Inr (truthy (prev_state mv) \<and> \<not> truthy (curr_state mv))
   \<and> raising_edge (update mv v) = Inr (\<not> truthy (curr_state mv) \<and> truthy v)
   \<and> falling_edge (update mv v) = Inr (truthy (curr_state mv) \<and> \<not> truthy v)
   \<and> raising_edge (update mv (curr_state mv)) = Inr False
   \<and> falling_edge (update mv (curr_state mv)) = Inr False
   \<and> (truthy v = truthy (curr_state mv) \<longrightarrow>
        raising_edge (update mv v) = Inr False \<and> falling_edge (update mv v) = Inr False)"
  using assms by (auto simp: raising_edge_def falling_edge_def update_def)

theorem edges_compare_prev_and_curr_witness:
  "single_bit MemoryVariable_default
   \<and> raising_edge (update MemoryVariable_default (VBool True)) = Inr True
   \<and> falling_edge (update MemoryVariable_default (VBool True)) = Inr False
   \<and> raising_edge (update MemoryVariable_default (VInt 0)) = Inr False
   \<and> falling_edge (update MemoryVariable_default (VInt 0)) = Inr False"
  using edges_compare_prev_and_curr [of MemoryVariable_default "VBool True"]
    edges_compare_prev_and_curr [of MemoryVariable_default "VInt 0"]
  by (simp add: MemoryVariable_default_def)

text \<open>
  C8. On a variable whose \<^verbatim>\<open>single_bit\<close> attribute is false, whatever its current and
  previous state, the two edge properties and \<^verbatim>\<open>activate\<close> and \<^verbatim>\<open>deactivate\<close> raise
  \<^verbatim>\<open>ValueError("Memory variable is not single bit.")\<close>, the source's exception for the
  type-mismatch error kind, and the two mutators leave the variable as it was.
\<close>

theorem bit_operations_reject_non_bit:
  assumes "\<not> single_bit mv"
  shows "raising_edge mv = Inl (ValueError ''Memory variable is not single bit.'')
   \<and> falling_edge mv = Inl (ValueError ''Memory variable is not single bit.'')
   \<and> activate mv = (Some (ValueError ''Memory variable is not single bit.''), mv)
   \<and> deactivate mv = (Some (ValueError ''Memory variable is not single bit.''), mv)"
  using assms
  by (simp add: raising_edge_def falling_edge_def activate_def deactivate_def not_single_bit_def)

theorem bit_operations_reject_non_bit_witness:
  "\<not> single_bit (MemoryVariable_default\<lparr>curr_state := VFloat (Finite 1), single_bit := False\<rparr>)
   \<and> raising_edge (MemoryVariable_default\<lparr>curr_state := VFloat (Finite 1), single_bit := False\<rparr>)
       = Inl (ValueError ''Memory variable is not single bit.'')
   \<and> fst (activate (MemoryVariable_default\<lparr>curr_state := VFloat (Finite 1), single_bit := False\<rparr>))
       = Some (ValueError ''Memory variable is not single bit.'')
   \<and> snd (deactivate (MemoryVariable_default\<lparr>curr_state := VFloat (Finite 1), single_bit := False\<rparr>))
       = MemoryVariable_default\<lparr>curr_state := VFloat (Finite 1), single_bit := False\<rparr>"
  using bit_operations_reject_non_bit
    [of "MemoryVariable_default\<lparr>curr_state := VFloat (Finite 1), single_bit := False\<rparr>"]
  by (simp add: MemoryVariable_default_def)

section \<open>The advance phase\<close>

lemma restamp_comp:
  "(\<lambda>(k, v). (k, update v (curr_state v))) \<circ> (\<lambda>(k, v). (k, update v (curr_state v)))
   = (\<lambda>(k :: string, v). (k, update v (curr_state v)))"
  by (auto simp: fun_eq_iff update_def)

lemma update_registries_idem: "update_registries (update_registries p) = update_registries p"
  by (simp add: update_registries_def restamp_comp)

lemma update_registries_funpow: "(update_registries ^^ Suc n) p = update_registries p"
  by (induction n) (simp_all add: update_registries_idem)

lemma update_curr_eq: "update v (curr_state v) = v\<lparr>prev_state := curr_state v\<rparr>"
  by (simp add: update_def)

text \<open>
  C7 (as amended). \<^verbatim>\<open>update_registries\<close> leaves the input registry (and the bindings
  and the stop flag) as they are; in the step registry and in the output registry it
  keeps every key in place and changes of every variable only the previous state, which
  becomes the current state. Applied once or more in a row it gives the state one
  application gives, in which every step and output variable has its previous state
  equal to its current state. On each of them that is single-bit, \<^verbatim>\<open>raising_edge\<close> and
  \<^verbatim>\<open>falling_edge\<close> then return false; on each that is not (the output variable of a PWM
  output), both raise \<^verbatim>\<open>ValueError\<close>, so neither returns true.
\<close>

theorem advance_restamps:
  "input_registry (update_registries p) = input_registry p
   \<and> priv_inputs (update_registries p) = priv_inputs p
   \<and> priv_outputs (update_registries p) = priv_outputs p
   \<and> priv_exit (update_registries p) = priv_exit p
   \<and> step_registry (update_registries p)
       = map (\<lambda>(k, v). (k, v\<lparr>prev_state := curr_state v\<rparr>)) (step_registry p)
   \<and> output_registry (update_registries p)
       = map (\<lambda>(k, v). (k, v\<lparr>prev_state := curr_state v\<rparr>)) (output_registry p)
   \<and> (update_registries ^^ Suc n) p = update_registries p
   \<and> (\<forall>(k, v) \<in> set (step_registry ((update_registries ^^ Suc n) p))
               \<union> set (output_registry ((update_registries ^^ Suc n) p)).
         prev_state v = curr_state v
         \<and> raising_edge v \<noteq> Inr True \<and> falling_edge v \<noteq> Inr True
         \<and> (single_bit v \<longrightarrow> raising_edge v = Inr False \<and> falling_edge v = Inr False)
         \<and> (\<not> single_bit v \<longrightarrow>
               raising_edge v = Inl (ValueError ''Memory variable is not single bit.'')
               \<and> falling_edge v = Inl (ValueError ''Memory variable is not single bit.'')))"
  unfolding update_registries_funpow
  by (auto simp: update_registries_def update_curr_eq raising_edge_def falling_edge_def
      not_single_bit_def)

theorem advance_restamps_witness:
  "input_registry (update_registries plc_after_control) = input_registry plc_after_control
   \<and> step_registry ((update_registries ^^ Suc (Suc 0)) plc_after_control)
       = [(''stage'', \<lparr>curr_state = VInt 1, prev_state = VInt 1,
                       single_bit = True, decimal_precision = 3\<rparr>)]
   \<and> output_registry ((update_registries ^^ Suc (Suc 0)) plc_after_control)
       = [(''fan'', \<lparr>curr_state = VFloat (Finite 1), prev_state = VFloat (Finite 1),
                     single_bit = False, decimal_precision = 3\<rparr>)]
   \<and> raising_edge (snd (hd (step_registry ((update_registries ^^ Suc (Suc 0)) plc_after_control))))
       = Inr False
   \<and> falling_edge (snd (hd (step_registry ((update_registries ^^ Suc (Suc 0)) plc_after_control))))
       = Inr False
   \<and> raising_edge (snd (hd (output_registry ((update_registries ^^ Suc (Suc 0)) plc_after_control))))
       = Inl (ValueError ''Memory variable is not single bit.'')"
  using advance_restamps [of plc_after_control "Suc 0"]
  by (simp add: plc_after_control_def init_PLC_def update_registries_def update_def
      raising_edge_def falling_edge_def not_single_bit_def)

text \<open>
  C7 as stated fails on the output variable of a PWM output: after three advance phases
  in a row its previous state equals its current state, but \<^verbatim>\<open>raising_edge\<close> and
  \<^verbatim>\<open>falling_edge\<close> are not false on it; they raise.
\<close>

theorem pwm_output_edges_raise_after_advance:
  "output_registry ((update_registries ^^ 3) plc_fan)
     = [(''fan'', \<lparr>curr_state = VFloat (Finite 1), prev_state = VFloat (Finite 1),
                   single_bit = False, decimal_precision = 3\<rparr>)]
   \<and> raising_edge \<lparr>curr_state = VFloat (Finite 1), prev_state = VFloat (Finite 1),
                   single_bit = False, decimal_precision = 3\<rparr>
       = Inl (ValueError ''Memory variable is not single bit.'')
   \<and> falling_edge \<lparr>curr_state = VFloat (Finite 1), prev_state = VFloat (Finite 1),
                   single_bit = False, decimal_precision = 3\<rparr>
       = Inl (ValueError ''Memory variable is not single bit.'')
   \<and> raising_edge \<lparr>curr_state = VFloat (Finite 1), prev_state = VFloat (Finite 1),
                   single_bit = False, decimal_precision = 3\<rparr> \<noteq> Inr False
   \<and> falling_edge \<lparr>curr_state = VFloat (Finite 1), prev_state = VFloat (Finite 1),
                   single_bit = False, decimal_precision = 3\<rparr> \<noteq> Inr False"
  by (simp add: numeral_3_eq_3 plc_fan_def add_pwm_output_def init_PLC_def Let_def
      update_registries_def update_def raising_edge_def falling_edge_def not_single_bit_def)

section \<open>The input phase\<close>





subsection \<open>Registration keeps the invariant\<close>

lemma labelled_Nil: "labelled []"
  by (simp add: labelled_def)

lemma list_all_update:
  "list_all (\<lambda>(k, g). label g = k) bs \<Longrightarrow> label g = k \<Longrightarrow>
   list_all (\<lambda>(k, g). label g = k) (AList.update k g bs)"
  by (induction bs) auto

lemma labelled_update: "labelled bs \<Longrightarrow> label g = k \<Longrightarrow> labelled (AList.update k g bs)"
  by (simp add: labelled_def distinct_update list_all_update)





lemma wf_init: "wf init_PLC"
  by (simp add: wf_def init_PLC_def labelled_Nil)

lemma wf_add_digital_input: "wf p \<Longrightarrow> wf (snd (add_digital_input pn lbl nc p))"
  by (simp add: wf_def add_digital_input_def Let_def labelled_update split: prod.splits)

lemma wf_add_digital_output: "wf p \<Longrightarrow> wf (snd (add_digital_output pn lbl v p))"
  by (simp add: wf_def add_digital_output_def Let_def labelled_update)

lemma wf_add_pwm_output:
  "wf p \<Longrightarrow> wf (snd (add_pwm_output pn lbl v fw mn mx lo hi dp p))"
  by (simp add: wf_def add_pwm_output_def Let_def labelled_update)

lemma wf_add_step: "wf p \<Longrightarrow> wf (snd (add_step lbl v p))"
  by (simp add: wf_def add_step_def Let_def)

lemma wf_update_registries: "wf (update_registries p) = wf p"
  by (simp add: wf_def update_registries_def)

subsection \<open>What a completed input phase stores\<close>

lemma except_ICE_None:
  "except_InternalCommunicationError E (r, s) = (None, s') \<Longrightarrow> r = None \<and> s' = s"
proof (cases r)
  case None
  then show "except_InternalCommunicationError E (r, s) = (None, s') \<Longrightarrow> r = None \<and> s' = s"
    by simp
next
  case (Some e)
  then show "except_InternalCommunicationError E (r, s) = (None, s') \<Longrightarrow> r = None \<and> s' = s"
    by (cases e) (simp_all split: prod.splits)
qed




lemma handler_plc: "plc (snd (int_com_error_handler E d s)) = plc s"
  by (simp add: int_com_error_handler_def Let_def emit_def split: option.splits prod.splits)

lemma handler_calls: "calls (snd (int_com_error_handler E d s)) = calls s"
  by (simp add: int_com_error_handler_def Let_def emit_def calls_def
      split: option.splits prod.splits)

lemma except_ICE_plc: "plc (snd (except_InternalCommunicationError E (r, s))) = plc s"
proof (cases r)
  case None
  then show ?thesis by simp
next
  case (Some e)
  then show ?thesis by (cases e) (simp_all add: case_prod_beta handler_plc)
qed

lemma except_ICE_calls: "calls (snd (except_InternalCommunicationError E (r, s))) = calls s"
proof (cases r)
  case None
  then show ?thesis by simp
next
  case (Some e)
  then show ?thesis by (cases e) (simp_all add: case_prod_beta handler_calls)
qed









section \<open>The calls of the scan cycle\<close>

lemma calls_emit: "calls (emit ev s) = calls s @ (if is_call ev then [ev] else [])"
  by (simp add: calls_def emit_def)

lemma calls_plc_update: "calls (s\<lparr>plc := p\<rparr>) = calls s"
  by (simp add: calls_def)

lemma calls_world_update: "calls (s\<lparr>world := w\<rparr>) = calls s"
  by (simp add: calls_def)

lemma read_bindings_calls: "calls (snd (read_bindings E key gs s)) = calls s"
proof (induction gs arbitrary: s)
  case Nil
  then show ?case by simp
next
  case (Cons g gs)
  show ?case
  proof (cases "map_of (input_registry (plc s)) (key g)")
    case None
    then show ?thesis by simp
  next
    case (Some mv)
    obtain x w where rd: "gpio_read E g (world s) = (x, w)" by (cases "gpio_read E g (world s)")
    show ?thesis
    proof (cases x)
      case (Inl e)
      with Some rd show ?thesis by (simp add: calls_emit calls_world_update)
    next
      case (Inr v)
      with Some rd show ?thesis
        by (simp add: Cons.IH calls_emit calls_world_update calls_plc_update)
    qed
  qed
qed

lemma read_loops_calls: "calls (snd (read_loops E s)) = calls s"
proof -
  obtain r1 s1 where first: "read_bindings E label (map snd (priv_inputs (plc s))) s = (r1, s1)"
    by (cases "read_bindings E label (map snd (priv_inputs (plc s))) s")
  from read_bindings_calls [of E label "map snd (priv_inputs (plc s))" s] first
  have c1: "calls s1 = calls s" by simp
  show ?thesis
  proof (cases r1)
    case None
    with first c1 show ?thesis by (simp add: read_loops_def read_bindings_calls)
  next
    case (Some e)
    with first c1 show ?thesis by (simp add: read_loops_def)
  qed
qed

lemma read_inputs_calls: "calls (snd (read_inputs E s)) = calls s @ [Call_read_inputs]"
proof -
  obtain r s1 where l: "read_loops E (emit Call_read_inputs s) = (r, s1)"
    by (cases "read_loops E (emit Call_read_inputs s)")
  from read_loops_calls [of E "emit Call_read_inputs s"] l
  have "calls s1 = calls s @ [Call_read_inputs]" by (simp add: calls_emit)
  with l show ?thesis by (simp add: read_inputs_def except_ICE_calls)
qed

lemma write_bindings_calls: "calls (snd (write_bindings E gs s)) = calls s"
proof (induction gs arbitrary: s)
  case Nil
  then show ?case by simp
next
  case (Cons g gs)
  show ?case
  proof (cases "map_of (output_registry (plc s)) (label g)")
    case None
    then show ?thesis by simp
  next
    case (Some mv)
    obtain x w where wr: "gpio_write E g (curr_state mv) (world s) = (x, w)"
      by (cases "gpio_write E g (curr_state mv) (world s)")
    show ?thesis
    proof (cases x)
      case (Some e)
      with \<open>map_of (output_registry (plc s)) (label g) = Some mv\<close> wr show ?thesis
        by (simp add: calls_emit calls_world_update)
    next
      case None
      with Some wr show ?thesis by (simp add: Cons.IH calls_emit calls_world_update)
    qed
  qed
qed

lemma write_bindings_plc: "plc (snd (write_bindings E gs s)) = plc s"
proof (induction gs arbitrary: s)
  case Nil
  then show ?case by simp
next
  case (Cons g gs)
  show ?case
  proof (cases "map_of (output_registry (plc s)) (label g)")
    case None
    then show ?thesis by simp
  next
    case (Some mv)
    obtain x w where wr: "gpio_write E g (curr_state mv) (world s) = (x, w)"
      by (cases "gpio_write E g (curr_state mv) (world s)")
    show ?thesis
    proof (cases x)
      case (Some e)
      with \<open>map_of (output_registry (plc s)) (label g) = Some mv\<close> wr show ?thesis
        by (simp add: emit_def)
    next
      case None
      with Some wr show ?thesis by (simp add: Cons.IH emit_def)
    qed
  qed
qed

lemma write_outputs_calls: "calls (snd (write_outputs E s)) = calls s @ [Call_write_outputs]"
proof -
  let ?s0 = "emit Call_write_outputs s"
  obtain r s1 where l: "write_bindings E (map snd (priv_outputs (plc ?s0))) ?s0 = (r, s1)"
    by (cases "write_bindings E (map snd (priv_outputs (plc ?s0))) ?s0")
  from write_bindings_calls [of E "map snd (priv_outputs (plc ?s0))" ?s0] l
  have "calls s1 = calls s @ [Call_write_outputs]" by (simp add: calls_emit)
  with l show ?thesis by (simp add: write_outputs_def Let_def except_ICE_calls)
qed

lemma write_outputs_plc: "plc (snd (write_outputs E s)) = plc s"
proof -
  let ?s0 = "emit Call_write_outputs s"
  obtain r s1 where l: "write_bindings E (map snd (priv_outputs (plc ?s0))) ?s0 = (r, s1)"
    by (cases "write_bindings E (map snd (priv_outputs (plc ?s0))) ?s0")
  from write_bindings_plc [of E "map snd (priv_outputs (plc ?s0))" ?s0] l
  have "plc s1 = plc s" by (simp add: emit_def)
  with l show ?thesis by (simp add: write_outputs_def Let_def except_ICE_plc)
qed

lemma call_routine_calls:
  "is_call ev \<Longrightarrow> calls (snd (call_routine ev f s)) = calls s @ [ev]"
  by (simp add: call_routine_def Let_def calls_def emit_def split: prod.splits)

lemma advance_phase_calls: "calls (advance_phase s) = calls s @ [Call_update_registries]"
  by (simp add: advance_phase_def calls_def emit_def)

lemma try_block_calls:
  "calls (snd (try_block E s))
     = calls s @ [Call_update_registries, Call_read_inputs]
         @ (if fst (read_inputs E (advance_phase s)) = None then [Call_control_routine] else [])"
proof -
  obtain r s2 where rd: "read_inputs E (advance_phase s) = (r, s2)"
    by (cases "read_inputs E (advance_phase s)")
  from read_inputs_calls [of E "advance_phase s"] rd
  have c: "calls s2 = calls s @ [Call_update_registries, Call_read_inputs]"
    by (simp add: advance_phase_calls)
  show ?thesis
  proof (cases r)
    case None
    with rd c show ?thesis by (simp add: try_block_def call_routine_calls)
  next
    case (Some e)
    with rd c show ?thesis by (simp add: try_block_def)
  qed
qed

lemma except_EmergencyException_calls:
  "calls (final (except_EmergencyException E (r, s)))
     = calls s @ (if r = Some EmergencyException then [Call_emergency_routine] else [])"
proof (cases r)
  case None
  then show ?thesis by (simp add: except_EmergencyException_def)
next
  case (Some e)
  show ?thesis
  proof (cases "e = EmergencyException")
    case False
    with Some show ?thesis by (simp add: except_EmergencyException_def)
  next
    case True
    obtain r' s' where c: "call_routine Call_emergency_routine (emergency_routine E) s = (r', s')"
      by (cases "call_routine Call_emergency_routine (emergency_routine E) s")
    from call_routine_calls [of Call_emergency_routine "emergency_routine E" s] c
    have "calls s' = calls s @ [Call_emergency_routine]" by simp
    with Some True c show ?thesis
      by (cases r') (simp_all add: except_EmergencyException_def)
  qed
qed

lemma except_EmergencyException_Continue:
  "except_EmergencyException E (r, s) = Continue s' \<longleftrightarrow> r = None \<and> s' = s"
  by (auto simp: except_EmergencyException_def split: option.splits prod.splits)

lemma finally_calls:
  "calls (final (finally_write_outputs E pending)) = calls (final pending) @ [Call_write_outputs]"
proof -
  obtain r s where w: "write_outputs E (final pending) = (r, s)"
    by (cases "write_outputs E (final pending)")
  from write_outputs_calls [of E "final pending"] w
  have "calls s = calls (final pending) @ [Call_write_outputs]" by simp
  with w show ?thesis
    by (cases r; cases pending) (simp_all add: finally_write_outputs_def)
qed

lemma finally_Continue:
  "finally_write_outputs E pending = Continue s'
     \<longleftrightarrow> (\<exists>s1. pending = Continue s1 \<and> write_outputs E s1 = (None, s'))"
  by (cases pending) (auto simp: finally_write_outputs_def split: option.splits prod.splits)

lemma scan_cycle_calls:
  "calls (final (scan_cycle E s))
     = calls s @ [Call_update_registries, Call_read_inputs]
         @ (if fst (read_inputs E (advance_phase s)) = None then [Call_control_routine] else [])
         @ (if fst (try_block E s) = Some EmergencyException then [Call_emergency_routine] else [])
         @ [Call_write_outputs]"
proof -
  obtain r s1 where t: "try_block E s = (r, s1)" by (cases "try_block E s")
  from try_block_calls [of E s] t
  have "calls s1 = calls s @ [Call_update_registries, Call_read_inputs]
         @ (if fst (read_inputs E (advance_phase s)) = None then [Call_control_routine] else [])"
    by simp
  with t show ?thesis
    by (simp add: scan_cycle_def finally_calls except_EmergencyException_calls)
qed

lemma scan_cycle_Continue:
  assumes "scan_cycle E s = Continue s'"
  shows "\<exists>s2 s3. read_inputs E (advance_phase s) = (None, s2)
           \<and> call_routine Call_control_routine (control_routine E) s2 = (None, s3)
           \<and> write_outputs E s3 = (None, s')"
proof -
  obtain r s1 where t: "try_block E s = (r, s1)" by (cases "try_block E s")
  with assms have "r = None" and w: "write_outputs E s1 = (None, s')"
    by (auto simp: scan_cycle_def finally_Continue except_EmergencyException_Continue)
  obtain r2 s2 where rd: "read_inputs E (advance_phase s) = (r2, s2)"
    by (cases "read_inputs E (advance_phase s)")
  with t \<open>r = None\<close> have "r2 = None"
    by (cases r2) (simp_all add: try_block_def)
  with t rd \<open>r = None\<close> have "call_routine Call_control_routine (control_routine E) s2 = (None, s1)"
    by (simp add: try_block_def)
  with rd \<open>r2 = None\<close> w show ?thesis by blast
qed

lemma scan_cycle_normal:
  assumes "read_inputs E (advance_phase s) = (None, s2)"
    and "call_routine Call_control_routine (control_routine E) s2 = (None, s3)"
    and "write_outputs E s3 = (None, s')"
  shows "scan_cycle E s = Continue s'"
  using assms
  by (simp add: scan_cycle_def try_block_def except_EmergencyException_def
      finally_write_outputs_def)

lemma scan_cycle_Continue_calls:
  assumes "scan_cycle E s = Continue s'"
  shows "calls s' = calls s @ full_cycle"
proof -
  from scan_cycle_Continue [OF assms] obtain s2 s3 where
    rd: "read_inputs E (advance_phase s) = (None, s2)"
    and ct: "call_routine Call_control_routine (control_routine E) s2 = (None, s3)" by blast
  then have "fst (try_block E s) = None" by (simp add: try_block_def)
  with scan_cycle_calls [of E s] assms rd show ?thesis by simp
qed

lemma deliver_signal_calls: "calls (deliver_signal E s) = calls s"
  by (simp add: deliver_signal_def calls_def)

lemma cycles_calls:
  "cycles k E s = Some sk \<Longrightarrow> calls sk = calls s @ concat (replicate k full_cycle)"
proof (induction k arbitrary: s)
  case 0
  then show ?case by simp
next
  case (Suc k)
  let ?s0 = "deliver_signal E s"
  from Suc.prems have go: "\<not> priv_exit (plc ?s0)"
    by (auto simp: Let_def split: if_splits)
  with Suc.prems obtain s1 where c: "scan_cycle E ?s0 = Continue s1" and rest: "cycles k E s1 = Some sk"
    by (auto simp: Let_def split: outcome.splits)
  from scan_cycle_Continue_calls [OF c] have "calls s1 = calls s @ full_cycle"
    by (simp add: deliver_signal_calls)
  with Suc.IH [OF rest] show ?case by simp
qed

lemma run_after_cycles: "cycles k E s = Some sk \<Longrightarrow> run (k + n) E s = run n E sk"
proof (induction k arbitrary: s)
  case 0
  then show ?case by simp
next
  case (Suc k)
  let ?s0 = "deliver_signal E s"
  from Suc.prems have go: "\<not> priv_exit (plc ?s0)"
    by (auto simp: Let_def split: if_splits)
  with Suc.prems obtain s1 where c: "scan_cycle E ?s0 = Continue s1" and rest: "cycles k E s1 = Some sk"
    by (auto simp: Let_def split: outcome.splits)
  from Suc.IH [OF rest] go c show ?case by (simp add: Let_def)
qed

section \<open>The writes of the output phase\<close>

lemma handler_trace_eq:
  "trace (snd (int_com_error_handler E d s))
     = trace s @ Logger_error (''program interrupted: '' @ d)
         # (case eml_notification E of
              None \<Rightarrow> []
            | Some send \<Rightarrow> [Eml_send (''program interrupted: '' @ d)])"
  by (simp add: int_com_error_handler_def Let_def emit_def case_prod_beta split: option.splits)

lemma handler_trace:
  "\<exists>rest. trace (snd (int_com_error_handler E d s)) = trace s @ rest \<and> list_all is_notice rest"
proof (cases "eml_notification E")
  case None
  then show ?thesis
    by (intro exI [of _ "[Logger_error (''program interrupted: '' @ d)]"])
       (simp add: handler_trace_eq)
next
  case (Some send)
  then show ?thesis
    by (intro exI [of _ "[Logger_error (''program interrupted: '' @ d),
                          Eml_send (''program interrupted: '' @ d)]"])
       (simp add: handler_trace_eq)
qed

lemma except_ICE_trace:
  "\<exists>rest. trace (snd (except_InternalCommunicationError E (r, s))) = trace s @ rest
      \<and> list_all is_notice rest
      \<and> (fst (except_InternalCommunicationError E (r, s)) = None \<longrightarrow> rest = [])"
proof (cases "\<exists>d. r = Some (InternalCommunicationError d)")
  case True
  then obtain d where r: "r = Some (InternalCommunicationError d)" by blast
  from handler_trace [of E d s] obtain rest where
    "trace (snd (int_com_error_handler E d s)) = trace s @ rest" "list_all is_notice rest"
    by blast
  with r show ?thesis by (intro exI [of _ rest]) (simp add: case_prod_beta)
next
  case False
  then have "except_InternalCommunicationError E (r, s) = (r, s)"
  proof (cases r)
    case None
    then show ?thesis by simp
  next
    case (Some e)
    with False show ?thesis by (cases e) simp_all
  qed
  then show ?thesis by (intro exI [of _ "[]"]) simp
qed

lemma written_outputs_prefix:
  "written_outputs E p gs w = take (length (written_outputs E p gs w)) gs"
  by (induction gs arbitrary: w) (auto split: option.splits prod.splits)

lemma write_bindings_written:
  "trace (snd (write_bindings E gs s))
     = trace s @ map (write_event (plc s)) (written_outputs E (plc s) gs (world s))"
proof (induction gs arbitrary: s)
  case Nil
  then show ?case by simp
next
  case (Cons g gs)
  show ?case
  proof (cases "map_of (output_registry (plc s)) (label g)")
    case None
    then show ?thesis by simp
  next
    case (Some mv)
    obtain x w where wr: "gpio_write E g (curr_state mv) (world s) = (x, w)"
      by (cases "gpio_write E g (curr_state mv) (world s)")
    have ev: "write_event (plc s) g = Gpio_write g (curr_state mv)"
      using Some by (simp add: write_event_def)
    show ?thesis
    proof (cases x)
      case (Some e)
      with \<open>map_of (output_registry (plc s)) (label g) = Some mv\<close> wr ev
      show ?thesis by (simp add: emit_def)
    next
      case None
      let ?s1 = "emit (Gpio_write g (curr_state mv)) (s\<lparr>world := w\<rparr>)"
      from None Some wr have step: "write_bindings E (g # gs) s = write_bindings E gs ?s1" by simp
      from None Some wr have wstep: "written_outputs E (plc s) (g # gs) (world s)
          = g # written_outputs E (plc s) gs w" by simp
      have p1: "plc ?s1 = plc s" and w1: "world ?s1 = w" by (simp_all add: emit_def)
      have t1: "trace ?s1 = trace s @ [write_event (plc s) g]"
        by (simp add: emit_def ev)
      have "trace (snd (write_bindings E gs ?s1))
              = trace ?s1 @ map (write_event (plc ?s1)) (written_outputs E (plc ?s1) gs (world ?s1))"
        by (rule Cons.IH)
      then show ?thesis unfolding step wstep p1 w1 t1 by simp
    qed
  qed
qed

lemma write_bindings_all_written:
  "fst (write_bindings E gs s) = None \<Longrightarrow> written_outputs E (plc s) gs (world s) = gs"
proof (induction gs arbitrary: s)
  case Nil
  then show ?case by simp
next
  case (Cons g gs)
  show ?case
  proof (cases "map_of (output_registry (plc s)) (label g)")
    case None
    with Cons.prems show ?thesis by simp
  next
    case (Some mv)
    obtain x w where wr: "gpio_write E g (curr_state mv) (world s) = (x, w)"
      by (cases "gpio_write E g (curr_state mv) (world s)")
    show ?thesis
    proof (cases x)
      case (Some e)
      with \<open>map_of (output_registry (plc s)) (label g) = Some mv\<close> wr Cons.prems
      show ?thesis by simp
    next
      case None
      let ?s1 = "emit (Gpio_write g (curr_state mv)) (s\<lparr>world := w\<rparr>)"
      from None Some wr have step: "write_bindings E (g # gs) s = write_bindings E gs ?s1" by simp
      from None Some wr have wstep: "written_outputs E (plc s) (g # gs) (world s)
          = g # written_outputs E (plc s) gs w" by simp
      have p1: "plc ?s1 = plc s" and w1: "world ?s1 = w" by (simp_all add: emit_def)
      from Cons.prems have "fst (write_bindings E gs ?s1) = None" unfolding step .
      from Cons.IH [OF this] show ?thesis unfolding wstep p1 w1 by simp
    qed
  qed
qed

lemma write_outputs_written:
  "\<exists>rest. trace (snd (write_outputs E s))
         = trace s @ Call_write_outputs
             # map (write_event (plc s))
                 (written_outputs E (plc s) (map snd (priv_outputs (plc s))) (world s)) @ rest
     \<and> list_all is_notice rest
     \<and> (fst (write_outputs E s) = None \<longrightarrow>
           written_outputs E (plc s) (map snd (priv_outputs (plc s))) (world s)
             = map snd (priv_outputs (plc s))
           \<and> rest = [])"
proof -
  let ?s0 = "emit Call_write_outputs s"
  let ?gs = "map snd (priv_outputs (plc s))"
  let ?w = "write_bindings E ?gs ?s0"
  have p0: "plc ?s0 = plc s" and w0: "world ?s0 = world s"
    and t0: "trace ?s0 = trace s @ [Call_write_outputs]"
    by (simp_all add: emit_def)
  have wo: "write_outputs E s = except_InternalCommunicationError E (fst ?w, snd ?w)"
    by (simp add: write_outputs_def Let_def p0)
  have tr: "trace (snd ?w) = trace ?s0 @ map (write_event (plc ?s0))
              (written_outputs E (plc ?s0) ?gs (world ?s0))"
    by (rule write_bindings_written)
  from except_ICE_trace [of E "fst ?w" "snd ?w"] obtain rest where
    tr2: "trace (snd (except_InternalCommunicationError E (fst ?w, snd ?w))) = trace (snd ?w) @ rest"
    and notice: "list_all is_notice rest"
    and empty: "fst (except_InternalCommunicationError E (fst ?w, snd ?w)) = None \<longrightarrow> rest = []"
    by (elim exE conjE)
  have rnone: "fst (except_InternalCommunicationError E (fst ?w, snd ?w)) = None \<longrightarrow> fst ?w = None"
  proof
    assume "fst (except_InternalCommunicationError E (fst ?w, snd ?w)) = None"
    then have "except_InternalCommunicationError E (fst ?w, snd ?w)
        = (None, snd (except_InternalCommunicationError E (fst ?w, snd ?w)))"
      by (simp only: prod_eq_iff fst_conv snd_conv simp_thms)
    from except_ICE_None [OF this] show "fst ?w = None" by (rule conjunct1)
  qed
  have b: "trace (snd (write_outputs E s))
         = trace s @ Call_write_outputs
             # map (write_event (plc s)) (written_outputs E (plc s) ?gs (world s)) @ rest"
    unfolding wo tr2 tr p0 w0 t0 by simp
  have c: "fst (write_outputs E s) = None \<longrightarrow>
             written_outputs E (plc s) ?gs (world s) = ?gs \<and> rest = []"
  proof
    assume "fst (write_outputs E s) = None"
    then have n: "fst (except_InternalCommunicationError E (fst ?w, snd ?w)) = None"
      unfolding wo .
    with rnone have "fst ?w = None" by blast
    from write_bindings_all_written [OF this] have "written_outputs E (plc s) ?gs (world s) = ?gs"
      unfolding p0 w0 .
    moreover from empty n have "rest = []" by blast
    ultimately show "written_outputs E (plc s) ?gs (world s) = ?gs \<and> rest = []" by (rule conjI)
  qed
  from b notice c show ?thesis by (intro exI [of _ rest] conjI)
qed

lemma finally_final:
  "final (finally_write_outputs E pending) = snd (write_outputs E (final pending))"
  by (cases pending)
     (simp_all add: finally_write_outputs_def split: prod.splits option.splits)

lemma read_inputs_handled:
  assumes "fst (read_loops E (emit Call_read_inputs s)) = Some (InternalCommunicationError d)"
  shows "read_inputs E s
     = (Some (fst (int_com_error_handler E d (snd (read_loops E (emit Call_read_inputs s))))),
        snd (int_com_error_handler E d (snd (read_loops E (emit Call_read_inputs s)))))"
proof -
  obtain r s1 where l: "read_loops E (emit Call_read_inputs s) = (r, s1)"
    by (cases "read_loops E (emit Call_read_inputs s)")
  with assms have "r = Some (InternalCommunicationError d)" by simp
  with l show ?thesis by (simp add: read_inputs_def case_prod_beta)
qed

lemma finally_Raised:
  "finally_write_outputs E (Raised e s)
     = (case write_outputs E s of (Some e', s5) \<Rightarrow> Raised e' s5 | (None, s5) \<Rightarrow> Raised e s5)"
  by (simp add: finally_write_outputs_def split: prod.splits option.splits)

text \<open>
  C1. Let \<open>k\<close> passes through the loop body have gone on, let the loop condition hold
  once more, and let the control routine raise \<^verbatim>\<open>EmergencyException\<close> in this pass
  (the input phase having returned). Then \<^verbatim>\<open>run\<close> is left in this pass, on any fuel
  that reaches it: the engine calls \<^verbatim>\<open>emergency_routine\<close> on the state the control
  routine left, then \<^verbatim>\<open>write_outputs\<close> on the state the emergency routine left (the
  writes carry the current states of the output registry as that routine left it), and
  \<^verbatim>\<open>run\<close> returns, or is left by the exception the routine or the output phase raised.
  The methods the engine invoked since \<^verbatim>\<open>run\<close> began are \<open>k\<close> full cycles followed by
  \<^verbatim>\<open>update_registries\<close>, \<^verbatim>\<open>read_inputs\<close>, \<^verbatim>\<open>control_routine\<close>,
  \<^verbatim>\<open>emergency_routine\<close>, \<^verbatim>\<open>write_outputs\<close>: the emergency routine once, the output
  phase once after it, the exit routine never, and no further cycle.
\<close>

theorem emergency_ends_run:
  assumes before: "cycles k E s = Some sk"
    and go: "\<not> priv_exit (plc (deliver_signal E sk))"
    and rd: "read_inputs E (advance_phase (deliver_signal E sk)) = (None, s2)"
    and ct: "control_routine E (plc s2) (world s2) = (Some EmergencyException, p3, w3)"
    and em: "emergency_routine E p3 w3 = (re, p4, w4)"
    and s4: "s4 = s2\<lparr>plc := p4, world := w4,
                      trace := trace s2 @ [Call_control_routine, Call_emergency_routine]\<rparr>"
  shows "\<exists>r new rest. run (k + Suc n) E s = Some r
           \<and> r = scan_cycle E (deliver_signal E sk)
           \<and> r = (case write_outputs E s4 of
                    (Some e, s5) \<Rightarrow> Raised e s5
                  | (None, s5) \<Rightarrow> (case re of Some e \<Rightarrow> Raised e s5 | None \<Rightarrow> Return s5))
           \<and> (\<forall>s'. r \<noteq> Continue s')
           \<and> calls (final r) = calls s @ new
           \<and> new = concat (replicate k full_cycle)
                 @ [Call_update_registries, Call_read_inputs, Call_control_routine,
                    Call_emergency_routine, Call_write_outputs]
           \<and> count_list new Call_emergency_routine = 1
           \<and> count_list new Call_exit_routine = 0
           \<and> trace (final r)
               = trace s2 @ [Call_control_routine, Call_emergency_routine, Call_write_outputs]
                   @ map (write_event p4) (written_outputs E p4 (map snd (priv_outputs p4)) w4)
                   @ rest
           \<and> list_all is_notice rest"
proof -
  let ?s0 = "deliver_signal E sk"
  let ?r = "scan_cycle E ?s0"
  let ?out = "case write_outputs E s4 of
                    (Some e, s5) \<Rightarrow> Raised e s5
                  | (None, s5) \<Rightarrow> (case re of Some e \<Rightarrow> Raised e s5 | None \<Rightarrow> Return s5)"
  have ctl: "call_routine Call_control_routine (control_routine E) s2
      = (Some EmergencyException, (emit Call_control_routine s2)\<lparr>plc := p3, world := w3\<rparr>)"
    using ct by (simp add: call_routine_def Let_def emit_def)
  have blk: "try_block E ?s0
      = (Some EmergencyException, (emit Call_control_routine s2)\<lparr>plc := p3, world := w3\<rparr>)"
    using rd ctl by (simp add: try_block_def)
  have emc: "call_routine Call_emergency_routine (emergency_routine E)
               ((emit Call_control_routine s2)\<lparr>plc := p3, world := w3\<rparr>) = (re, s4)"
    using em by (simp add: call_routine_def Let_def emit_def s4)
  have pend: "except_EmergencyException E (try_block E ?s0)
      = (case re of Some e \<Rightarrow> Raised e s4 | None \<Rightarrow> Return s4)"
    unfolding blk by (simp add: except_EmergencyException_def emc split: option.splits)
  have out: "?r = ?out"
    unfolding scan_cycle_def pend
    by (cases re) (simp_all add: finally_write_outputs_def split: prod.splits option.splits)
  have fin: "final ?r = snd (write_outputs E s4)"
    unfolding scan_cycle_def pend by (cases re) (simp_all add: finally_final)
  have c: "calls (final ?r) = calls ?s0 @ [Call_update_registries, Call_read_inputs,
              Call_control_routine, Call_emergency_routine, Call_write_outputs]"
    using scan_cycle_calls [of E ?s0] rd blk by simp
  have nc: "\<forall>s'. ?r \<noteq> Continue s'"
  proof (intro allI notI)
    fix s' assume "?r = Continue s'"
    from scan_cycle_Continue [OF this] rd ctl show False by auto
  qed
  have "run (Suc n) E sk = Some ?r"
    using go nc by (cases ?r) (simp_all add: Let_def)
  with run_after_cycles [OF before, of "Suc n"] have r: "run (k + Suc n) E s = Some ?r" by simp
  have cnt: "count_list (concat (replicate k full_cycle)) ev = (if ev \<in> set full_cycle then k else 0)"
    for ev by (induction k) auto
  let ?new = "concat (replicate k full_cycle)
                 @ [Call_update_registries, Call_read_inputs, Call_control_routine,
                    Call_emergency_routine, Call_write_outputs]"
  have c': "calls (final ?r) = calls s @ ?new"
    using c cycles_calls [OF before] by (simp add: deliver_signal_calls)
  have n1: "count_list ?new Call_emergency_routine = 1"
    and n0: "count_list ?new Call_exit_routine = 0"
    by (simp_all add: cnt)
  have p4: "plc s4 = p4" and w4: "world s4 = w4"
    and t4: "trace s4 = trace s2 @ [Call_control_routine, Call_emergency_routine]"
    by (simp_all add: s4)
  from write_outputs_written [of E s4] obtain rest where
    w1: "trace (snd (write_outputs E s4))
         = trace s4 @ Call_write_outputs
             # map (write_event (plc s4))
                 (written_outputs E (plc s4) (map snd (priv_outputs (plc s4))) (world s4)) @ rest"
    and w2: "list_all is_notice rest"
    by (elim exE conjE)
  have tr: "trace (final ?r)
               = trace s2 @ [Call_control_routine, Call_emergency_routine, Call_write_outputs]
                   @ map (write_event p4) (written_outputs E p4 (map snd (priv_outputs p4)) w4)
                   @ rest"
    unfolding fin w1 p4 w4 t4 by simp
  from r out nc c' n1 n0 tr w2 show ?thesis
    by (intro exI [of _ ?r] exI [of _ ?new] exI [of _ rest] conjI refl)
qed

theorem emergency_ends_run_witness:
  "cycles 2 env_emergency (boot plc_valve) \<noteq> None
   \<and> \<not> priv_exit (plc (deliver_signal env_emergency (the (cycles 2 env_emergency (boot plc_valve)))))
   \<and> fst (read_inputs env_emergency (advance_phase
          (deliver_signal env_emergency (the (cycles 2 env_emergency (boot plc_valve)))))) = None
   \<and> (case run 3 env_emergency (boot plc_valve) of Some (Return r) \<Rightarrow> True | _ \<Rightarrow> False)
   \<and> map_option (\<lambda>r. calls (final r)) (run 3 env_emergency (boot plc_valve))
       = Some (full_cycle @ full_cycle
              @ [Call_update_registries, Call_read_inputs, Call_control_routine,
                 Call_emergency_routine, Call_write_outputs])
   \<and> map_option (\<lambda>r. drop 12 (trace (final r))) (run 3 env_emergency (boot plc_valve))
       = Some [Call_update_registries, Call_read_inputs,
               Gpio_read (DigitalOutput (PinNumber 27) ''valve'' (VInt 1)) (Inr (VBool True)),
               Call_control_routine, Call_emergency_routine, Call_write_outputs,
               Gpio_write (DigitalOutput (PinNumber 27) ''valve'' (VInt 1)) (VInt 0)]
   \<and> map_option (\<lambda>r. output_registry (plc (final r))) (run 3 env_emergency (boot plc_valve))
       = Some [(''valve'', \<lparr>curr_state = VInt 0, prev_state = VInt 1,
                  single_bit = True, decimal_precision = 3\<rparr>)]"
proof -
  let ?E = env_emergency
  let ?s = "boot plc_valve"
  let ?sk = "the (cycles 2 ?E ?s)"
  let ?rd = "read_inputs ?E (advance_phase (deliver_signal ?E ?sk))"
  let ?ct = "control_routine ?E (plc (snd ?rd)) (world (snd ?rd))"
  let ?p3 = "fst (snd ?ct)" and ?w3 = "snd (snd ?ct)"
  let ?em = "emergency_routine ?E ?p3 ?w3"
  let ?s4 = "(snd ?rd)\<lparr>plc := fst (snd ?em), world := snd (snd ?em),
                      trace := trace (snd ?rd) @ [Call_control_routine, Call_emergency_routine]\<rparr>"
  have c: "cycles 2 ?E ?s \<noteq> None" by code_simp
  then have before: "cycles 2 ?E ?s = Some ?sk" by simp
  have go: "\<not> priv_exit (plc (deliver_signal ?E ?sk))" by code_simp
  have r0: "fst ?rd = None" by code_simp
  then have rd: "?rd = (None, snd ?rd)" by (simp add: prod_eq_iff)
  have "fst ?ct = Some EmergencyException" by code_simp
  then have ct: "?ct = (Some EmergencyException, ?p3, ?w3)" by (simp add: prod_eq_iff)
  have em: "?em = (fst ?em, fst (snd ?em), snd (snd ?em))" by simp
  have ret: "case run 3 ?E ?s of Some (Return r) \<Rightarrow> True | _ \<Rightarrow> False" by code_simp
  have tr: "map_option (\<lambda>r. drop 12 (trace (final r))) (run 3 ?E ?s)
       = Some [Call_update_registries, Call_read_inputs,
               Gpio_read (DigitalOutput (PinNumber 27) ''valve'' (VInt 1)) (Inr (VBool True)),
               Call_control_routine, Call_emergency_routine, Call_write_outputs,
               Gpio_write (DigitalOutput (PinNumber 27) ''valve'' (VInt 1)) (VInt 0)]"
    by code_simp
  have reg: "map_option (\<lambda>r. output_registry (plc (final r))) (run 3 ?E ?s)
       = Some [(''valve'', \<lparr>curr_state = VInt 0, prev_state = VInt 1,
                  single_bit = True, decimal_precision = 3\<rparr>)]"
    by code_simp
  from emergency_ends_run [OF before go rd ct em refl, of 0]
  obtain r where r: "run (2 + Suc 0) ?E ?s = Some r"
    and cl: "calls (final r) = calls ?s @ concat (replicate 2 full_cycle)
                 @ [Call_update_registries, Call_read_inputs, Call_control_routine,
                    Call_emergency_routine, Call_write_outputs]"
    by blast
  have three: "(2::nat) + Suc 0 = 3" by simp
  have two: "replicate 2 full_cycle = [full_cycle, full_cycle]" by (simp add: numeral_2_eq_2)
  have "calls ?s = []" by (simp add: boot_def calls_def)
  with r cl have "map_option (\<lambda>r. calls (final r)) (run 3 ?E ?s)
       = Some (full_cycle @ full_cycle
              @ [Call_update_registries, Call_read_inputs, Call_control_routine,
                 Call_emergency_routine, Call_write_outputs])"
    unfolding three two by simp
  with c go r0 ret tr reg show ?thesis by (intro conjI)
qed

section \<open>Stop requests\<close>

lemma call_routine_fst: "fst (call_routine ev f s) = fst (f (plc s) (world s))"
  by (simp add: call_routine_def Let_def emit_def case_prod_beta)

lemma else_clause_calls:
  "calls (final (else_clause E s))
     = calls s @ Call_exit_routine
         # (if fst (exit_routine E (plc s) (world s)) = None then [Call_write_outputs] else [])"
proof -
  obtain r s1 where c: "call_routine Call_exit_routine (exit_routine E) s = (r, s1)"
    by (cases "call_routine Call_exit_routine (exit_routine E) s")
  from call_routine_calls [of Call_exit_routine "exit_routine E" s] c
  have c1: "calls s1 = calls s @ [Call_exit_routine]" by simp
  from call_routine_fst [of Call_exit_routine "exit_routine E" s] c
  have r: "fst (exit_routine E (plc s) (world s)) = r" by simp
  show ?thesis
  proof (cases r)
    case (Some e)
    with c c1 r show ?thesis by (simp add: else_clause_def)
  next
    case None
    obtain rw s2 where w: "write_outputs E s1 = (rw, s2)" by (cases "write_outputs E s1")
    from write_outputs_calls [of E s1] w have "calls s2 = calls s1 @ [Call_write_outputs]" by simp
    with None c c1 r w show ?thesis by (cases rw) (simp_all add: else_clause_def)
  qed
qed

lemma else_clause_not_Continue: "else_clause E s \<noteq> Continue s'"
  by (simp add: else_clause_def split: prod.splits option.splits)

lemma cycles_one_more:
  "cycles k E s = Some sk \<Longrightarrow> cycles (Suc 0) E sk = Some s' \<Longrightarrow> cycles (Suc k) E s = Some s'"
proof (induction k arbitrary: s)
  case 0
  then show ?case by simp
next
  case (Suc k)
  let ?t0 = "deliver_signal E s"
  from Suc.prems(1) have g: "\<not> priv_exit (plc ?t0)"
    by (auto simp: Let_def split: if_splits)
  with Suc.prems(1) obtain s1 where c: "scan_cycle E ?t0 = Continue s1"
    and rest: "cycles k E s1 = Some sk"
    by (auto simp: Let_def split: outcome.splits)
  from Suc.IH [OF rest Suc.prems(2)] g c show ?case by (simp add: Let_def)
qed

lemma else_clause_unfold:
  "else_clause E s
     = (case exit_routine E (plc s) (world s) of
          (Some e, p6, w6) \<Rightarrow>
            Raised e \<lparr>plc = p6, world = w6, trace = trace s @ [Call_exit_routine]\<rparr>
        | (None, p6, w6) \<Rightarrow>
            (case write_outputs E
                    \<lparr>plc = p6, world = w6, trace = trace s @ [Call_exit_routine]\<rparr> of
               (Some e, s7) \<Rightarrow> Raised e s7
             | (None, s7) \<Rightarrow> Return s7))"
proof -
  obtain re p6 w6 where ex: "exit_routine E (plc s) (world s) = (re, p6, w6)"
    by (cases "exit_routine E (plc s) (world s)")
  have c: "call_routine Call_exit_routine (exit_routine E) s
      = (re, \<lparr>plc = p6, world = w6, trace = trace s @ [Call_exit_routine]\<rparr>)"
    using ex by (simp add: call_routine_def emit_def Let_def)
  show ?thesis unfolding else_clause_def c ex by (cases re) simp_all
qed

text \<open>
  C4 (as amended). Let \<open>k\<close> passes through the loop body have gone on, and let the next
  pass run all four phases with nothing raised: no emergency, no communication failure,
  no other exception. Let the stop flag be found set at the next test of the loop
  condition (the handler ran during this pass, or the signal is delivered now). Then
  this pass is a full cycle, and \<^verbatim>\<open>run\<close> is left at that test, on any fuel that reaches
  it, through the \<^verbatim>\<open>else\<close> clause: it calls \<^verbatim>\<open>exit_routine\<close> and, when that returns
  without raising, \<^verbatim>\<open>write_outputs\<close> once more, on the state \<^verbatim>\<open>exit_routine\<close> left; no
  further cycle runs. This last output phase writes the bindings in the order of
  registration, each with the current state that \<^verbatim>\<open>exit_routine\<close> left in its variable,
  up to and including the first write that fails.
\<close>

theorem stop_request_ends_run:
  assumes before: "cycles k E s = Some sk"
    and go: "\<not> priv_exit (plc (deliver_signal E sk))"
    and rd: "read_inputs E (advance_phase (deliver_signal E sk)) = (None, s2)"
    and ct: "call_routine Call_control_routine (control_routine E) s2 = (None, s3)"
    and wr: "write_outputs E s3 = (None, s4)"
    and stop: "priv_exit (plc (deliver_signal E s4))"
  shows "cycles (Suc k) E s = Some s4
     \<and> calls s4 = calls s @ concat (replicate k full_cycle) @ full_cycle
     \<and> run (k + Suc (Suc n)) E s = Some (else_clause E (deliver_signal E s4))
     \<and> (\<forall>s'. else_clause E (deliver_signal E s4) \<noteq> Continue s')
     \<and> calls (final (else_clause E (deliver_signal E s4)))
         = calls s4 @ Call_exit_routine
             # (if fst (exit_routine E (plc (deliver_signal E s4)) (world s4)) = None
                then [Call_write_outputs] else [])
     \<and> else_clause E (deliver_signal E s4)
         = (case exit_routine E (plc (deliver_signal E s4)) (world s4) of
              (Some e, p6, w6) \<Rightarrow>
                Raised e \<lparr>plc = p6, world = w6, trace = trace s4 @ [Call_exit_routine]\<rparr>
            | (None, p6, w6) \<Rightarrow>
                (case write_outputs E
                        \<lparr>plc = p6, world = w6, trace = trace s4 @ [Call_exit_routine]\<rparr> of
                   (Some e, s7) \<Rightarrow> Raised e s7
                 | (None, s7) \<Rightarrow> Return s7))
     \<and> (\<forall>p6 w6. exit_routine E (plc (deliver_signal E s4)) (world s4) = (None, p6, w6) \<longrightarrow>
          (\<exists>rest. trace (final (else_clause E (deliver_signal E s4)))
               = trace s4 @ [Call_exit_routine, Call_write_outputs]
                   @ map (write_event p6) (written_outputs E p6 (map snd (priv_outputs p6)) w6)
                   @ rest
             \<and> list_all is_notice rest))"
proof -
  let ?s0 = "deliver_signal E sk"
  let ?s5 = "deliver_signal E s4"
  have cyc: "scan_cycle E ?s0 = Continue s4" using rd ct wr by (rule scan_cycle_normal)
  have step: "cycles (Suc 0) E sk = Some s4" using go cyc by (simp add: Let_def)
  have k1: "cycles (Suc k) E s = Some s4"
    using before step by (rule cycles_one_more)
  have c4: "calls s4 = calls s @ concat (replicate k full_cycle) @ full_cycle"
    using cycles_calls [OF before] scan_cycle_Continue_calls [OF cyc]
    by (simp add: deliver_signal_calls)
  have "run (Suc n) E s4 = Some (else_clause E ?s5)"
    using stop by (simp add: Let_def)
  with run_after_cycles [OF k1, of "Suc n"]
  have r: "run (k + Suc (Suc n)) E s = Some (else_clause E ?s5)" by simp
  have w: "world ?s5 = world s4" and t: "trace ?s5 = trace s4"
    by (simp_all add: deliver_signal_def)
  have nc: "\<forall>s'. else_clause E ?s5 \<noteq> Continue s'"
    using else_clause_not_Continue [of E ?s5] by blast
  have cl: "calls (final (else_clause E ?s5))
         = calls s4 @ Call_exit_routine
             # (if fst (exit_routine E (plc ?s5) (world s4)) = None
                then [Call_write_outputs] else [])"
    using else_clause_calls [of E ?s5] w by (simp add: deliver_signal_calls)
  have eq: "else_clause E ?s5
         = (case exit_routine E (plc ?s5) (world s4) of
              (Some e, p6, w6) \<Rightarrow>
                Raised e \<lparr>plc = p6, world = w6, trace = trace s4 @ [Call_exit_routine]\<rparr>
            | (None, p6, w6) \<Rightarrow>
                (case write_outputs E
                        \<lparr>plc = p6, world = w6, trace = trace s4 @ [Call_exit_routine]\<rparr> of
                   (Some e, s7) \<Rightarrow> Raised e s7
                 | (None, s7) \<Rightarrow> Return s7))"
    unfolding else_clause_unfold [of E ?s5] w t ..
  have tr: "\<forall>p6 w6. exit_routine E (plc ?s5) (world s4) = (None, p6, w6) \<longrightarrow>
          (\<exists>rest. trace (final (else_clause E ?s5))
               = trace s4 @ [Call_exit_routine, Call_write_outputs]
                   @ map (write_event p6) (written_outputs E p6 (map snd (priv_outputs p6)) w6)
                   @ rest
             \<and> list_all is_notice rest)"
  proof (intro allI impI)
    fix p6 w6
    assume ex: "exit_routine E (plc ?s5) (world s4) = (None, p6, w6)"
    let ?s6 = "\<lparr>plc = p6, world = w6, trace = trace s4 @ [Call_exit_routine]\<rparr>"
    obtain rw s7 where wo: "write_outputs E ?s6 = (rw, s7)" by (cases "write_outputs E ?s6")
    from eq ex wo have f: "final (else_clause E ?s5) = s7" by (cases rw) simp_all
    from write_outputs_written [of E ?s6] wo
    obtain rest where "trace s7 = trace ?s6 @ Call_write_outputs
            # map (write_event p6) (written_outputs E p6 (map snd (priv_outputs p6)) w6) @ rest"
      and "list_all is_notice rest"
      by auto
    with f show "\<exists>rest. trace (final (else_clause E ?s5))
               = trace s4 @ [Call_exit_routine, Call_write_outputs]
                   @ map (write_event p6) (written_outputs E p6 (map snd (priv_outputs p6)) w6)
                   @ rest
             \<and> list_all is_notice rest"
      by simp
  qed
  from k1 c4 r nc cl eq tr show ?thesis by (intro conjI)
qed

theorem stop_request_ends_run_witness:
  "cycles 1 env_stop (boot plc_valve) \<noteq> None
   \<and> \<not> priv_exit (plc (deliver_signal env_stop (the (cycles 1 env_stop (boot plc_valve)))))
   \<and> cycles 2 env_stop (boot plc_valve) \<noteq> None
   \<and> priv_exit (plc (deliver_signal env_stop (the (cycles 2 env_stop (boot plc_valve)))))
   \<and> (case run 3 env_stop (boot plc_valve) of Some (Return r) \<Rightarrow> True | _ \<Rightarrow> False)
   \<and> map_option (\<lambda>r. calls (final r)) (run 3 env_stop (boot plc_valve))
       = Some (full_cycle @ full_cycle @ [Call_exit_routine, Call_write_outputs])
   \<and> fst (exit_routine env_stop
            (plc (deliver_signal env_stop (the (cycles 2 env_stop (boot plc_valve)))))
            (world (the (cycles 2 env_stop (boot plc_valve))))) = None
   \<and> map_option (\<lambda>r. drop 12 (trace (final r))) (run 3 env_stop (boot plc_valve))
       = Some [Call_exit_routine, Call_write_outputs,
               Gpio_write (DigitalOutput (PinNumber 27) ''valve'' (VInt 1)) (VInt 0)]"
proof -
  let ?E = env_stop
  let ?s = "boot plc_valve"
  let ?sk = "the (cycles 1 ?E ?s)"
  let ?rd = "read_inputs ?E (advance_phase (deliver_signal ?E ?sk))"
  let ?ct = "call_routine Call_control_routine (control_routine ?E) (snd ?rd)"
  let ?wr = "write_outputs ?E (snd ?ct)"
  have c1: "cycles 1 ?E ?s \<noteq> None" by code_simp
  then have before: "cycles 1 ?E ?s = Some ?sk" by simp
  have go: "\<not> priv_exit (plc (deliver_signal ?E ?sk))" by code_simp
  have "fst ?rd = None" by code_simp
  then have rd: "?rd = (None, snd ?rd)" by (simp add: prod_eq_iff)
  have "fst ?ct = None" by code_simp
  then have ct: "?ct = (None, snd ?ct)" by (simp add: prod_eq_iff)
  have "fst ?wr = None" by code_simp
  then have wr: "?wr = (None, snd ?wr)" by (simp add: prod_eq_iff)
  have stop: "priv_exit (plc (deliver_signal ?E (snd ?wr)))" by code_simp
  have ex: "fst (exit_routine ?E (plc (deliver_signal ?E (snd ?wr))) (world (snd ?wr))) = None"
    by code_simp
  have ret: "case run 3 ?E ?s of Some (Return r) \<Rightarrow> True | _ \<Rightarrow> False" by code_simp
  have three: "(1::nat) + Suc (Suc 0) = 3" and two: "Suc 1 = 2" by simp_all
  have one: "replicate 1 full_cycle = [full_cycle]" by simp
  have init: "calls ?s = []" by (simp add: boot_def calls_def)
  note inst = stop_request_ends_run [OF before go rd ct wr stop, of 0, unfolded three two one]
  from inst have c2: "cycles 2 ?E ?s = Some (snd ?wr)" by (elim conjE)
  from inst have r: "run 3 ?E ?s = Some (else_clause ?E (deliver_signal ?E (snd ?wr)))"
    by (elim conjE)
  from inst have c4: "calls (snd ?wr) = calls ?s @ concat [full_cycle] @ full_cycle"
    by (elim conjE)
  from inst have "calls (final (else_clause ?E (deliver_signal ?E (snd ?wr))))
         = calls (snd ?wr) @ Call_exit_routine
             # (if fst (exit_routine ?E (plc (deliver_signal ?E (snd ?wr))) (world (snd ?wr))) = None
                then [Call_write_outputs] else [])"
    by (elim conjE)
  then have cl: "calls (final (else_clause ?E (deliver_signal ?E (snd ?wr))))
      = full_cycle @ full_cycle @ [Call_exit_routine, Call_write_outputs]"
    unfolding c4 ex init by simp
  have full: "map_option (\<lambda>r. drop 12 (trace (final r))) (run 3 ?E ?s)
       = Some [Call_exit_routine, Call_write_outputs,
               Gpio_write (DigitalOutput (PinNumber 27) ''valve'' (VInt 1)) (VInt 0)]"
    by code_simp
  have ex2: "fst (exit_routine ?E (plc (deliver_signal ?E (the (cycles 2 ?E ?s))))
            (world (the (cycles 2 ?E ?s)))) = None"
    by code_simp
  from c2 have n2: "cycles 2 ?E ?s \<noteq> None" by simp
  from c2 stop have stop2: "priv_exit (plc (deliver_signal ?E (the (cycles 2 ?E ?s))))"
    by simp
  from r cl have cl2: "map_option (\<lambda>r. calls (final r)) (run 3 ?E ?s)
       = Some (full_cycle @ full_cycle @ [Call_exit_routine, Call_write_outputs])"
    by simp
  from c1 go n2 stop2 ret cl2 ex2 full show ?thesis by (intro conjI)
qed

text \<open>
  C4 as stated fails when the cycle in which the stop flag is set meets a communication
  failure: no emergency occurs, yet the output phase ends in \<^verbatim>\<open>sys.exit\<close>, the cycle
  does not complete normally and \<^verbatim>\<open>exit_routine\<close> is never called.
\<close>

theorem stop_then_write_failure_skips_exit_routine:
  "run 2 env_stop_write_fails (boot plc_valve)
     = Some (Raised (SystemExit ''program interrupted: no reply from pin 27'')
         \<lparr>plc =
            \<lparr>priv_inputs = [],
             priv_outputs = [(''valve'', DigitalOutput (PinNumber 27) ''valve'' (VInt 1))],
             input_registry =
               [(''valve_status'', \<lparr>curr_state = VBool True, prev_state = VInt 0,
                   single_bit = True, decimal_precision = 3\<rparr>)],
             output_registry =
               [(''valve'', \<lparr>curr_state = VInt 1, prev_state = VInt 1,
                   single_bit = True, decimal_precision = 3\<rparr>)],
             step_registry = [], priv_exit = True\<rparr>,
          world = 1,
          trace =
            [Call_update_registries, Call_read_inputs,
             Gpio_read (DigitalOutput (PinNumber 27) ''valve'' (VInt 1)) (Inr (VBool True)),
             Call_control_routine, Call_write_outputs,
             Gpio_write (DigitalOutput (PinNumber 27) ''valve'' (VInt 1)) (VInt 1),
             Logger_error ''program interrupted: no reply from pin 27'']\<rparr>)"
  by code_simp

section \<open>Communication failures\<close>

text \<open>
  C3 (as amended). \<^verbatim>\<open>int_com_error_handler\<close> logs the message
  \<^verbatim>\<open>program interrupted: <description>\<close> at error level, then sends it through the
  notifier when one is configured, and changes nothing in the engine. With no notifier,
  or when \<^verbatim>\<open>send\<close> returns, the handler ends in \<^verbatim>\<open>sys.exit\<close> with that message. When
  \<^verbatim>\<open>send\<close> raises, its exception leaves the handler and \<^verbatim>\<open>sys.exit\<close> is not reached.
\<close>

theorem handler_logs_notifies_exits:
  "trace (snd (int_com_error_handler E d s))
     = trace s @ Logger_error (''program interrupted: '' @ d)
         # (case eml_notification E of
              None \<Rightarrow> []
            | Some send \<Rightarrow> [Eml_send (''program interrupted: '' @ d)])
   \<and> plc (snd (int_com_error_handler E d s)) = plc s
   \<and> (eml_notification E = None \<longrightarrow>
         fst (int_com_error_handler E d s) = SystemExit (''program interrupted: '' @ d))
   \<and> (\<forall>send. eml_notification E = Some send
         \<and> fst (send (''program interrupted: '' @ d) (world s)) = None \<longrightarrow>
         fst (int_com_error_handler E d s) = SystemExit (''program interrupted: '' @ d))
   \<and> (\<forall>send e. eml_notification E = Some send
         \<and> fst (send (''program interrupted: '' @ d) (world s)) = Some e \<longrightarrow>
         fst (int_com_error_handler E d s) = e)"
  by (auto simp: int_com_error_handler_def Let_def emit_def split: option.splits prod.splits)

theorem handler_logs_notifies_exits_witness:
  "int_com_error_handler env_plain ''no reply from pin 17'' (boot init_PLC)
     = (SystemExit ''program interrupted: no reply from pin 17'',
        \<lparr>plc = init_PLC, world = 0,
         trace = [Logger_error ''program interrupted: no reply from pin 17'']\<rparr>)
   \<and> int_com_error_handler env_notify ''no reply from pin 17'' (boot init_PLC)
     = (SystemExit ''program interrupted: no reply from pin 17'',
        \<lparr>plc = init_PLC, world = 0,
         trace = [Logger_error ''program interrupted: no reply from pin 17'',
                  Eml_send ''program interrupted: no reply from pin 17'']\<rparr>)
   \<and> fst (int_com_error_handler env_notify_fails ''no reply from pin 17'' (boot init_PLC))
     = OtherException ''SMTP server unreachable''"
  using handler_logs_notifies_exits [of env_plain "''no reply from pin 17''" "boot init_PLC"]
    handler_logs_notifies_exits [of env_notify "''no reply from pin 17''" "boot init_PLC"]
    handler_logs_notifies_exits [of env_notify_fails "''no reply from pin 17''" "boot init_PLC"]
  by (simp add: int_com_error_handler_def env_plain_def env_notify_def env_notify_fails_def
      boot_def emit_def Let_def)

text \<open>
  C3 as stated fails when the notifier fails: the handler is left by the notifier's
  exception, not by \<^verbatim>\<open>SystemExit\<close> with the failure message.
\<close>

theorem failed_notification_replaces_exit:
  "int_com_error_handler env_notify_fails ''no reply from pin 17'' (boot init_PLC)
     = (OtherException ''SMTP server unreachable'',
        \<lparr>plc = init_PLC, world = 0,
         trace = [Logger_error ''program interrupted: no reply from pin 17'',
                  Eml_send ''program interrupted: no reply from pin 17'']\<rparr>)"
  by (simp add: int_com_error_handler_def env_plain_def env_notify_fails_def boot_def emit_def
      Let_def)

text \<open>
  C2 (as amended). Let \<open>k\<close> passes through the loop body have gone on, let the loop
  condition hold once more, and let a read in \<^verbatim>\<open>read_inputs\<close> raise
  \<^verbatim>\<open>InternalCommunicationError\<close> in this pass. Then \<^verbatim>\<open>read_inputs\<close> ends in
  \<^verbatim>\<open>int_com_error_handler\<close>, and \<^verbatim>\<open>run\<close> is left in this pass, on any fuel that
  reaches it; the control routine is not called; \<^verbatim>\<open>write_outputs\<close> is the last method
  called, in the state \<open>sw\<close> the \<^verbatim>\<open>except\<close> clause of \<^verbatim>\<open>run\<close> leaves (the state the
  handler leaves, unless the handler was left by an \<^verbatim>\<open>EmergencyException\<close>). It writes
  to exactly the outputs of \<open>written_outputs\<close>: the bound outputs in the order of their
  registration, each with the current state of its entry in the output registry, up to
  and including the first whose write raises, and all of them when \<^verbatim>\<open>write_outputs\<close>
  raises nothing. \<^verbatim>\<open>run\<close> is then left by the exception of the output phase, or else
  by the one that left the handler.
\<close>

theorem com_failure_still_writes_outputs:
  assumes before: "cycles k E s = Some sk"
    and go: "\<not> priv_exit (plc (deliver_signal E sk))"
    and ice: "fst (read_loops E (emit Call_read_inputs (advance_phase (deliver_signal E sk))))
                = Some (InternalCommunicationError d)"
    and sw: "sw = final (except_EmergencyException E
                          (read_inputs E (advance_phase (deliver_signal E sk))))"
  shows "run (k + Suc n) E s = Some (scan_cycle E (deliver_signal E sk))
     \<and> (\<forall>s'. scan_cycle E (deliver_signal E sk) \<noteq> Continue s')
     \<and> calls (final (scan_cycle E (deliver_signal E sk)))
         = calls sk @ [Call_update_registries, Call_read_inputs]
             @ (if fst (read_inputs E (advance_phase (deliver_signal E sk)))
                     = Some EmergencyException
                then [Call_emergency_routine] else [])
             @ [Call_write_outputs]
     \<and> read_inputs E (advance_phase (deliver_signal E sk))
         = (Some (fst (int_com_error_handler E d
                    (snd (read_loops E (emit Call_read_inputs
                            (advance_phase (deliver_signal E sk))))))),
            snd (int_com_error_handler E d
                    (snd (read_loops E (emit Call_read_inputs
                            (advance_phase (deliver_signal E sk)))))))
     \<and> (fst (read_inputs E (advance_phase (deliver_signal E sk))) \<noteq> Some EmergencyException \<longrightarrow>
           sw = snd (read_inputs E (advance_phase (deliver_signal E sk)))
           \<and> scan_cycle E (deliver_signal E sk)
               = (case write_outputs E sw of
                    (Some e, s5) \<Rightarrow> Raised e s5
                  | (None, s5) \<Rightarrow>
                      Raised (fst (int_com_error_handler E d
                                (snd (read_loops E (emit Call_read_inputs
                                        (advance_phase (deliver_signal E sk))))))) s5))
     \<and> final (scan_cycle E (deliver_signal E sk)) = snd (write_outputs E sw)
     \<and> (\<exists>rest.
           trace (final (scan_cycle E (deliver_signal E sk)))
             = trace sw @ Call_write_outputs
                 # map (write_event (plc sw))
                     (written_outputs E (plc sw) (map snd (priv_outputs (plc sw))) (world sw))
                 @ rest
           \<and> list_all is_notice rest
           \<and> (fst (write_outputs E sw) = None \<longrightarrow>
                 written_outputs E (plc sw) (map snd (priv_outputs (plc sw))) (world sw)
                   = map snd (priv_outputs (plc sw))
                 \<and> rest = []))"
proof -
  let ?s0 = "deliver_signal E sk"
  let ?rd = "read_inputs E (advance_phase ?s0)"
  note handled = read_inputs_handled [OF ice]
  from handled have raised: "fst ?rd \<noteq> None" by simp
  then have blk: "try_block E ?s0 = ?rd"
    by (cases ?rd) (auto simp: try_block_def)
  have sc: "scan_cycle E ?s0 = finally_write_outputs E (except_EmergencyException E ?rd)"
    by (simp add: scan_cycle_def blk)
  have nc: "\<forall>s'. scan_cycle E ?s0 \<noteq> Continue s'"
  proof (intro allI notI)
    fix s' assume "scan_cycle E ?s0 = Continue s'"
    from scan_cycle_Continue [OF this] raised show False by auto
  qed
  have fin: "final (scan_cycle E ?s0) = snd (write_outputs E sw)"
    by (simp add: sc finally_final sw)
  have "run (Suc n) E sk = Some (scan_cycle E ?s0)"
    using go nc by (cases "scan_cycle E ?s0") (simp_all add: Let_def)
  with run_after_cycles [OF before, of "Suc n"]
  have r: "run (k + Suc n) E s = Some (scan_cycle E ?s0)" by simp
  have c: "calls (final (scan_cycle E ?s0))
         = calls sk @ [Call_update_registries, Call_read_inputs]
             @ (if fst ?rd = Some EmergencyException then [Call_emergency_routine] else [])
             @ [Call_write_outputs]"
    using scan_cycle_calls [of E ?s0] raised by (simp add: blk deliver_signal_calls)
  let ?he = "fst (int_com_error_handler E d
                    (snd (read_loops E (emit Call_read_inputs (advance_phase ?s0)))))"
  have plain: "fst ?rd \<noteq> Some EmergencyException \<longrightarrow>
           sw = snd ?rd
           \<and> scan_cycle E ?s0
               = (case write_outputs E sw of
                    (Some e, s5) \<Rightarrow> Raised e s5
                  | (None, s5) \<Rightarrow> Raised ?he s5)"
  proof
    assume ne: "fst ?rd \<noteq> Some EmergencyException"
    from handled have e: "fst ?rd = Some ?he" by simp
    then have rd: "?rd = (Some ?he, snd ?rd)" by (simp add: prod_eq_iff)
    from e ne have "?he \<noteq> EmergencyException" by simp
    then have ex: "except_EmergencyException E ?rd = Raised ?he (snd ?rd)"
      by (subst rd) (simp add: except_EmergencyException_def)
    then have swe: "sw = snd ?rd" by (simp add: sw)
    have "scan_cycle E ?s0
               = (case write_outputs E (snd ?rd) of
                    (Some e', s5) \<Rightarrow> Raised e' s5
                  | (None, s5) \<Rightarrow> Raised ?he s5)"
      unfolding sc ex by (rule finally_Raised)
    then have "scan_cycle E ?s0
               = (case write_outputs E sw of
                    (Some e', s5) \<Rightarrow> Raised e' s5
                  | (None, s5) \<Rightarrow> Raised ?he s5)"
      unfolding swe .
    with swe show "sw = snd ?rd
           \<and> scan_cycle E ?s0
               = (case write_outputs E sw of
                    (Some e, s5) \<Rightarrow> Raised e s5
                  | (None, s5) \<Rightarrow> Raised ?he s5)"
      by (rule conjI)
  qed
  from write_outputs_written [of E sw] obtain rest where
    w1: "trace (snd (write_outputs E sw))
         = trace sw @ Call_write_outputs
             # map (write_event (plc sw))
                 (written_outputs E (plc sw) (map snd (priv_outputs (plc sw))) (world sw)) @ rest"
    and w2: "list_all is_notice rest"
    and w3: "fst (write_outputs E sw) = None \<longrightarrow>
           written_outputs E (plc sw) (map snd (priv_outputs (plc sw))) (world sw)
             = map snd (priv_outputs (plc sw))
           \<and> rest = []"
    by (elim exE conjE)
  have last: "\<exists>rest.
           trace (final (scan_cycle E ?s0))
             = trace sw @ Call_write_outputs
                 # map (write_event (plc sw))
                     (written_outputs E (plc sw) (map snd (priv_outputs (plc sw))) (world sw))
                 @ rest
           \<and> list_all is_notice rest
           \<and> (fst (write_outputs E sw) = None \<longrightarrow>
                 written_outputs E (plc sw) (map snd (priv_outputs (plc sw))) (world sw)
                   = map snd (priv_outputs (plc sw))
                 \<and> rest = [])"
    unfolding fin using w1 w2 w3 by (intro exI [of _ rest] conjI)
  from r nc c handled plain fin last show ?thesis by (intro conjI)
qed

theorem com_failure_still_writes_outputs_witness:
  "\<not> priv_exit (plc (deliver_signal env_read_fails (boot plc_two_outputs)))
   \<and> fst (read_loops env_read_fails (emit Call_read_inputs
          (advance_phase (deliver_signal env_read_fails (boot plc_two_outputs)))))
       = Some (InternalCommunicationError ''no reply from pin 17'')
   \<and> run 1 env_read_fails (boot plc_two_outputs)
       = Some (Raised (SystemExit ''program interrupted: no reply from pin 17'')
         \<lparr>plc =
            \<lparr>priv_inputs = [(''start'', DigitalInput (PinNumber 17) ''start'' True)],
             priv_outputs =
               [(''valve'', DigitalOutput (PinNumber 27) ''valve'' (VInt 1)),
                (''pump'', DigitalOutput (PinNumber 22) ''pump'' (VInt 0))],
             input_registry =
               [(''start'', \<lparr>curr_state = VInt 0, prev_state = VInt 0,
                   single_bit = True, decimal_precision = 3\<rparr>),
                (''valve_status'', \<lparr>curr_state = VInt 0, prev_state = VInt 0,
                   single_bit = True, decimal_precision = 3\<rparr>),
                (''pump_status'', \<lparr>curr_state = VInt 0, prev_state = VInt 0,
                   single_bit = True, decimal_precision = 3\<rparr>)],
             output_registry =
               [(''valve'', \<lparr>curr_state = VInt 1, prev_state = VInt 1,
                   single_bit = True, decimal_precision = 3\<rparr>),
                (''pump'', \<lparr>curr_state = VInt 0, prev_state = VInt 0,
                   single_bit = True, decimal_precision = 3\<rparr>)],
             step_registry = [], priv_exit = False\<rparr>,
          world = 0,
          trace =
            [Call_update_registries, Call_read_inputs,
             Gpio_read (DigitalInput (PinNumber 17) ''start'' True)
               (Inl (InternalCommunicationError ''no reply from pin 17'')),
             Logger_error ''program interrupted: no reply from pin 17'',
             Call_write_outputs,
             Gpio_write (DigitalOutput (PinNumber 27) ''valve'' (VInt 1)) (VInt 1),
             Gpio_write (DigitalOutput (PinNumber 22) ''pump'' (VInt 0)) (VInt 0)]\<rparr>)
   \<and> written_outputs env_read_fails plc_two_outputs (map snd (priv_outputs plc_two_outputs)) 0
       = [DigitalOutput (PinNumber 27) ''valve'' (VInt 1),
          DigitalOutput (PinNumber 22) ''pump'' (VInt 0)]
   \<and> \<not> priv_exit (plc (deliver_signal env_read_write_fail (boot plc_two_outputs)))
   \<and> fst (read_loops env_read_write_fail (emit Call_read_inputs
          (advance_phase (deliver_signal env_read_write_fail (boot plc_two_outputs)))))
       = Some (InternalCommunicationError ''no reply from pin 17'')
   \<and> written_outputs env_read_write_fail plc_two_outputs
         (map snd (priv_outputs plc_two_outputs)) 0
       = [DigitalOutput (PinNumber 27) ''valve'' (VInt 1)]
   \<and> map_option (\<lambda>r. trace (final r)) (run 1 env_read_write_fail (boot plc_two_outputs))
       = Some [Call_update_registries, Call_read_inputs,
               Gpio_read (DigitalInput (PinNumber 17) ''start'' True)
                 (Inl (InternalCommunicationError ''no reply from pin 17'')),
               Logger_error ''program interrupted: no reply from pin 17'',
               Call_write_outputs,
               Gpio_write (DigitalOutput (PinNumber 27) ''valve'' (VInt 1)) (VInt 1),
               Logger_error ''program interrupted: no reply from pin 27'']"
proof -
  let ?E = env_read_fails
  let ?F = env_read_write_fail
  let ?s = "boot plc_two_outputs"
  have before: "cycles 0 ?E ?s = Some ?s" and beforeF: "cycles 0 ?F ?s = Some ?s" by simp_all
  have go: "\<not> priv_exit (plc (deliver_signal ?E ?s))" by code_simp
  have goF: "\<not> priv_exit (plc (deliver_signal ?F ?s))" by code_simp
  have ice: "fst (read_loops ?E (emit Call_read_inputs (advance_phase (deliver_signal ?E ?s))))
       = Some (InternalCommunicationError ''no reply from pin 17'')" by code_simp
  have iceF: "fst (read_loops ?F (emit Call_read_inputs (advance_phase (deliver_signal ?F ?s))))
       = Some (InternalCommunicationError ''no reply from pin 17'')" by code_simp
  have sc: "scan_cycle ?E (deliver_signal ?E ?s)
       = Raised (SystemExit ''program interrupted: no reply from pin 17'')
         \<lparr>plc =
            \<lparr>priv_inputs = [(''start'', DigitalInput (PinNumber 17) ''start'' True)],
             priv_outputs =
               [(''valve'', DigitalOutput (PinNumber 27) ''valve'' (VInt 1)),
                (''pump'', DigitalOutput (PinNumber 22) ''pump'' (VInt 0))],
             input_registry =
               [(''start'', \<lparr>curr_state = VInt 0, prev_state = VInt 0,
                   single_bit = True, decimal_precision = 3\<rparr>),
                (''valve_status'', \<lparr>curr_state = VInt 0, prev_state = VInt 0,
                   single_bit = True, decimal_precision = 3\<rparr>),
                (''pump_status'', \<lparr>curr_state = VInt 0, prev_state = VInt 0,
                   single_bit = True, decimal_precision = 3\<rparr>)],
             output_registry =
               [(''valve'', \<lparr>curr_state = VInt 1, prev_state = VInt 1,
                   single_bit = True, decimal_precision = 3\<rparr>),
                (''pump'', \<lparr>curr_state = VInt 0, prev_state = VInt 0,
                   single_bit = True, decimal_precision = 3\<rparr>)],
             step_registry = [], priv_exit = False\<rparr>,
          world = 0,
          trace =
            [Call_update_registries, Call_read_inputs,
             Gpio_read (DigitalInput (PinNumber 17) ''start'' True)
               (Inl (InternalCommunicationError ''no reply from pin 17'')),
             Logger_error ''program interrupted: no reply from pin 17'',
             Call_write_outputs,
             Gpio_write (DigitalOutput (PinNumber 27) ''valve'' (VInt 1)) (VInt 1),
             Gpio_write (DigitalOutput (PinNumber 22) ''pump'' (VInt 0)) (VInt 0)]\<rparr>"
    by code_simp
  have scF: "trace (final (scan_cycle ?F (deliver_signal ?F ?s)))
       = [Call_update_registries, Call_read_inputs,
               Gpio_read (DigitalInput (PinNumber 17) ''start'' True)
                 (Inl (InternalCommunicationError ''no reply from pin 17'')),
               Logger_error ''program interrupted: no reply from pin 17'',
               Call_write_outputs,
               Gpio_write (DigitalOutput (PinNumber 27) ''valve'' (VInt 1)) (VInt 1),
               Logger_error ''program interrupted: no reply from pin 27'']"
    by code_simp
  have wE: "written_outputs ?E plc_two_outputs (map snd (priv_outputs plc_two_outputs)) 0
       = [DigitalOutput (PinNumber 27) ''valve'' (VInt 1),
          DigitalOutput (PinNumber 22) ''pump'' (VInt 0)]" by code_simp
  have wF: "written_outputs ?F plc_two_outputs (map snd (priv_outputs plc_two_outputs)) 0
       = [DigitalOutput (PinNumber 27) ''valve'' (VInt 1)]" by code_simp
  from com_failure_still_writes_outputs [OF before go ice refl, of 0]
  have "run (0 + Suc 0) ?E ?s = Some (scan_cycle ?E (deliver_signal ?E ?s))"
    by (rule conjunct1)
  then have rE: "run 1 ?E ?s = Some (scan_cycle ?E (deliver_signal ?E ?s))" by simp
  from com_failure_still_writes_outputs [OF beforeF goF iceF refl, of 0]
  have "run (0 + Suc 0) ?F ?s = Some (scan_cycle ?F (deliver_signal ?F ?s))"
    by (rule conjunct1)
  then have rF: "run 1 ?F ?s = Some (scan_cycle ?F (deliver_signal ?F ?s))" by simp
  from rF scF have tF: "map_option (\<lambda>r. trace (final r)) (run 1 ?F ?s)
       = Some [Call_update_registries, Call_read_inputs,
               Gpio_read (DigitalInput (PinNumber 17) ''start'' True)
                 (Inl (InternalCommunicationError ''no reply from pin 17'')),
               Logger_error ''program interrupted: no reply from pin 17'',
               Call_write_outputs,
               Gpio_write (DigitalOutput (PinNumber 27) ''valve'' (VInt 1)) (VInt 1),
               Logger_error ''program interrupted: no reply from pin 27'']"
    by simp
  from rE sc have runE: "run 1 ?E ?s
       = Some (Raised (SystemExit ''program interrupted: no reply from pin 17'')
         \<lparr>plc =
            \<lparr>priv_inputs = [(''start'', DigitalInput (PinNumber 17) ''start'' True)],
             priv_outputs =
               [(''valve'', DigitalOutput (PinNumber 27) ''valve'' (VInt 1)),
                (''pump'', DigitalOutput (PinNumber 22) ''pump'' (VInt 0))],
             input_registry =
               [(''start'', \<lparr>curr_state = VInt 0, prev_state = VInt 0,
                   single_bit = True, decimal_precision = 3\<rparr>),
                (''valve_status'', \<lparr>curr_state = VInt 0, prev_state = VInt 0,
                   single_bit = True, decimal_precision = 3\<rparr>),
                (''pump_status'', \<lparr>curr_state = VInt 0, prev_state = VInt 0,
                   single_bit = True, decimal_precision = 3\<rparr>)],
             output_registry =
               [(''valve'', \<lparr>curr_state = VInt 1, prev_state = VInt 1,
                   single_bit = True, decimal_precision = 3\<rparr>),
                (''pump'', \<lparr>curr_state = VInt 0, prev_state = VInt 0,
                   single_bit = True, decimal_precision = 3\<rparr>)],
             step_registry = [], priv_exit = False\<rparr>,
          world = 0,
          trace =
            [Call_update_registries, Call_read_inputs,
             Gpio_read (DigitalInput (PinNumber 17) ''start'' True)
               (Inl (InternalCommunicationError ''no reply from pin 17'')),
             Logger_error ''program interrupted: no reply from pin 17'',
             Call_write_outputs,
             Gpio_write (DigitalOutput (PinNumber 27) ''valve'' (VInt 1)) (VInt 1),
             Gpio_write (DigitalOutput (PinNumber 22) ''pump'' (VInt 0)) (VInt 0)]\<rparr>)"
    by (simp only:)
  from go ice runE wE goF iceF wF tF show ?thesis by (intro conjI)
qed

text \<open>
  C2 as stated fails when a write fails too: with two bound outputs and a first write
  that raises, the second output is never written before the process exits.
\<close>

theorem write_failure_leaves_later_outputs_unwritten:
  "run 1 env_read_write_fail (boot plc_two_outputs)
     = Some (Raised (SystemExit ''program interrupted: no reply from pin 27'')
         \<lparr>plc =
            \<lparr>priv_inputs = [(''start'', DigitalInput (PinNumber 17) ''start'' True)],
             priv_outputs =
               [(''valve'', DigitalOutput (PinNumber 27) ''valve'' (VInt 1)),
                (''pump'', DigitalOutput (PinNumber 22) ''pump'' (VInt 0))],
             input_registry =
               [(''start'', \<lparr>curr_state = VInt 0, prev_state = VInt 0,
                   single_bit = True, decimal_precision = 3\<rparr>),
                (''valve_status'', \<lparr>curr_state = VInt 0, prev_state = VInt 0,
                   single_bit = True, decimal_precision = 3\<rparr>),
                (''pump_status'', \<lparr>curr_state = VInt 0, prev_state = VInt 0,
                   single_bit = True, decimal_precision = 3\<rparr>)],
             output_registry =
               [(''valve'', \<lparr>curr_state = VInt 1, prev_state = VInt 1,
                   single_bit = True, decimal_precision = 3\<rparr>),
                (''pump'', \<lparr>curr_state = VInt 0, prev_state = VInt 0,
                   single_bit = True, decimal_precision = 3\<rparr>)],
             step_registry = [], priv_exit = False\<rparr>,
          world = 0,
          trace =
            [Call_update_registries, Call_read_inputs,
             Gpio_read (DigitalInput (PinNumber 17) ''start'' True)
               (Inl (InternalCommunicationError ''no reply from pin 17'')),
             Logger_error ''program interrupted: no reply from pin 17'',
             Call_write_outputs,
             Gpio_write (DigitalOutput (PinNumber 27) ''valve'' (VInt 1)) (VInt 1),
             Logger_error ''program interrupted: no reply from pin 27'']\<rparr>)"
  by code_simp

end
